theory Spec2Isabelle
  imports Main
begin

section \<open>Strings of the source language\<close>

text \<open>
  The generator is JavaScript. A source string is modelled as a \<^typ>\<open>string\<close>, one
  \<^typ>\<open>char\<close> per code unit, so the model covers the code units U+0000 to U+00FF.
  The helpers of this section are the runtime's string operations that the generator
  calls (\<^verbatim>\<open>trim\<close>, \<^verbatim>\<open>toLowerCase\<close>, \<^verbatim>\<open>includes\<close>, \<^verbatim>\<open>split\<close>, \<^verbatim>\<open>isNaN\<close>,
  \<^verbatim>\<open>parseFloat\<close>) restricted to that range.
\<close>

definition code :: "char \<Rightarrow> nat" where
  "code c = of_char c"

definition isDigit :: "char \<Rightarrow> bool" where
  "isDigit c = (48 \<le> code c \<and> code c \<le> 57)"

definition isLower :: "char \<Rightarrow> bool" where
  "isLower c = (97 \<le> code c \<and> code c \<le> 122)"

definition isUpper :: "char \<Rightarrow> bool" where
  "isUpper c = (65 \<le> code c \<and> code c \<le> 90)"

text \<open>\<^verbatim>\<open>\w\<close> of a regular expression: \<^verbatim>\<open>[A-Za-z0-9_]\<close>.\<close>

definition isWordChar :: "char \<Rightarrow> bool" where
  "isWordChar c = (isLower c \<or> isUpper c \<or> isDigit c \<or> c = CHR ''_'')"

text \<open>
  White space and line terminators, as \<^verbatim>\<open>String.prototype.trim\<close>, the string to
  number conversion and \<^verbatim>\<open>\s\<close> understand them: TAB, LF, VT, FF, CR, SP and NBSP.
\<close>

definition isWhiteSpace :: "char \<Rightarrow> bool" where
  "isWhiteSpace c = (code c \<in> {9, 10, 11, 12, 13, 32, 160})"

definition trimStart :: "string \<Rightarrow> string" where
  "trimStart s = dropWhile isWhiteSpace s"

definition trimEnd :: "string \<Rightarrow> string" where
  "trimEnd s = rev (dropWhile isWhiteSpace (rev s))"

definition trim :: "string \<Rightarrow> string" where
  "trim s = trimEnd (trimStart s)"

text \<open>
  \<^verbatim>\<open>toLowerCase\<close>: in the modelled range the letters with a lower-case partner are
  A to Z and U+00C0 to U+00DE without the multiplication sign U+00D7; the partner is
  32 code units higher.
\<close>

definition toLowerChar :: "char \<Rightarrow> char" where
  "toLowerChar c =
     (if isUpper c \<or> (192 \<le> code c \<and> code c \<le> 222 \<and> code c \<noteq> 215)
      then char_of (code c + 32) else c)"

definition toLowerCase :: "string \<Rightarrow> string" where
  "toLowerCase s = map toLowerChar s"

text \<open>\<^verbatim>\<open>s.includes(c)\<close> for a one-character needle.\<close>

definition includesChar :: "string \<Rightarrow> char \<Rightarrow> bool" where
  "includesChar s c = (c \<in> set s)"

text \<open>\<^verbatim>\<open>s.split(c)\<close> for a one-character separator: never the empty list.\<close>

fun split :: "char \<Rightarrow> string \<Rightarrow> string list" where
  "split sep [] = [[]]"
| "split sep (c # cs) =
     (if c = sep then [] # split sep cs
      else (case split sep cs of
              [] \<Rightarrow> [[c]]
            | p # ps \<Rightarrow> (c # p) # ps))"

subsection \<open>Numeric strings\<close>

text \<open>
  \<^verbatim>\<open>isNaN(s)\<close> on a string converts it with the runtime's string to number
  conversion: white space is trimmed; the empty string is the number 0; otherwise the
  whole string must be a numeric literal, which is a signed decimal literal
  (\<^verbatim>\<open>Infinity\<close>, digits with an optional fraction and exponent, or a fraction that
  starts with the dot) or an unsigned binary, octal or hexadecimal integer literal.
  Only the question whether the result is NaN matters to the generator.
\<close>

definition stripSign :: "string \<Rightarrow> string" where
  "stripSign s =
     (case s of
        [] \<Rightarrow> []
      | c # cs \<Rightarrow> if c = CHR ''+'' \<or> c = CHR ''-'' then cs else s)"

definition isDigits :: "string \<Rightarrow> bool" where
  "isDigits s = (s \<noteq> [] \<and> list_all isDigit s)"

text \<open>The rest of a decimal literal: nothing, or an exponent part up to the end.\<close>

definition isExponentOrEnd :: "string \<Rightarrow> bool" where
  "isExponentOrEnd s =
     (case s of
        [] \<Rightarrow> True
      | e # r \<Rightarrow> (e = CHR ''e'' \<or> e = CHR ''E'') \<and> isDigits (stripSign r))"

definition isUnsignedDecimalLiteral :: "string \<Rightarrow> bool" where
  "isUnsignedDecimalLiteral s =
     (s = ''Infinity'' \<or>
      (let a = takeWhile isDigit s; r = dropWhile isDigit s in
       case r of
         [] \<Rightarrow> a \<noteq> []
       | c # r2 \<Rightarrow>
           if c = CHR ''.''
           then (let b = takeWhile isDigit r2; r3 = dropWhile isDigit r2 in
                 (a \<noteq> [] \<or> b \<noteq> []) \<and> isExponentOrEnd r3)
           else a \<noteq> [] \<and> isExponentOrEnd r))"

definition isHexDigit :: "char \<Rightarrow> bool" where
  "isHexDigit c =
     (isDigit c \<or> (97 \<le> code c \<and> code c \<le> 102) \<or> (65 \<le> code c \<and> code c \<le> 70))"

definition isNonDecimalIntegerLiteral :: "string \<Rightarrow> bool" where
  "isNonDecimalIntegerLiteral s =
     (case s of
        z # x # ds \<Rightarrow>
          z = CHR ''0'' \<and> ds \<noteq> [] \<and>
          (if x = CHR ''x'' \<or> x = CHR ''X'' then list_all isHexDigit ds
           else if x = CHR ''o'' \<or> x = CHR ''O''
             then list_all (\<lambda>c. 48 \<le> code c \<and> code c \<le> 55) ds
           else if x = CHR ''b'' \<or> x = CHR ''B''
             then list_all (\<lambda>c. c = CHR ''0'' \<or> c = CHR ''1'') ds
           else False)
      | _ \<Rightarrow> False)"

text \<open>\<^verbatim>\<open>isNaN(s)\<close> for a string \<open>s\<close>.\<close>

definition isNaN_string :: "string \<Rightarrow> bool" where
  "isNaN_string s =
     (let t = trim s in
      \<not> (t = [] \<or> isUnsignedDecimalLiteral (stripSign t) \<or> isNonDecimalIntegerLiteral t))"

text \<open>
  \<^verbatim>\<open>isNaN(parseFloat(s))\<close>: \<^verbatim>\<open>parseFloat\<close> skips leading white space and reads the
  longest prefix that is a signed decimal literal; the result is NaN when no prefix
  is one, that is unless, after an optional sign, the text starts with
  \<^verbatim>\<open>Infinity\<close>, with a digit, or with a dot and a digit.
\<close>

definition isNaN_parseFloat :: "string \<Rightarrow> bool" where
  "isNaN_parseFloat s =
     (let u = stripSign (trimStart s) in
      \<not> (take 8 u = ''Infinity'' \<or>
         (case u of
            [] \<Rightarrow> False
          | c # r \<Rightarrow> isDigit c \<or> (c = CHR ''.'' \<and> (case r of [] \<Rightarrow> False | d # _ \<Rightarrow> isDigit d)))))"

section \<open>Type inferencer\<close>

text \<open>
  The primitive types of the model. In the source they are the strings
  \<^verbatim>\<open>'integer'\<close>, \<^verbatim>\<open>'string'\<close>, \<^verbatim>\<open>'text'\<close>, \<^verbatim>\<open>'boolean'\<close>, \<^verbatim>\<open>'date'\<close>,
  \<^verbatim>\<open>'timestamp'\<close>, \<^verbatim>\<open>'decimal'\<close>, \<^verbatim>\<open>'json'\<close> and \<^verbatim>\<open>'relation'\<close>.
\<close>

datatype ptype =
  TInteger | TString | TText | TBoolean | TDate | TTimestamp | TDecimal | TJson | TRelation

text \<open>\<^verbatim>\<open>/^\d{4}-\d{2}-\d{2}$/.test(value)\<close>\<close>

definition isDate :: "string \<Rightarrow> bool" where
  "isDate v =
     (length v = 10 \<and>
      list_all isDigit (take 4 v) \<and> v ! 4 = CHR ''-'' \<and>
      list_all isDigit (take 2 (drop 5 v)) \<and> v ! 7 = CHR ''-'' \<and>
      list_all isDigit (take 2 (drop 8 v)))"

text \<open>\<^verbatim>\<open>/^\d{4}-\d{2}-\d{2}[T ]\d{2}:\d{2}:\d{2}/.test(value)\<close>: a prefix match.\<close>

definition isDateTime :: "string \<Rightarrow> bool" where
  "isDateTime v =
     (19 \<le> length v \<and> isDate (take 10 v) \<and>
      (v ! 10 = CHR ''T'' \<or> v ! 10 = CHR '' '') \<and>
      list_all isDigit (take 2 (drop 11 v)) \<and> v ! 13 = CHR '':'' \<and>
      list_all isDigit (take 2 (drop 14 v)) \<and> v ! 16 = CHR '':'' \<and>
      list_all isDigit (take 2 (drop 17 v)))"

text \<open>
  \<^verbatim>\<open>inferType(value)\<close>. The argument is \<open>None\<close> for \<^verbatim>\<open>null\<close> and \<^verbatim>\<open>undefined\<close>
  and \<open>Some s\<close> for a value whose \<^verbatim>\<open>String(value)\<close> is \<open>s\<close>.
\<close>

definition inferType :: "string option \<Rightarrow> ptype" where
  "inferType value =
     (case value of
        None \<Rightarrow> TString
      | Some v \<Rightarrow>
          (let strValue = trim v in
           if strValue = ''true'' \<or> strValue = ''false'' then TBoolean
           else if \<not> isNaN_string strValue \<and> \<not> isNaN_parseFloat strValue
             then (if includesChar strValue (CHR ''.'') then TDecimal else TInteger)
           else if isDate strValue then TDate
           else if isDateTime strValue then TTimestamp
           else if length strValue > 255 then TText
           else TString))"

section \<open>Field-name sanitizer\<close>

text \<open>\<^verbatim>\<open>.replace(/[^a-z0-9_]/g, '_')\<close>\<close>

definition isIdentChar :: "char \<Rightarrow> bool" where
  "isIdentChar c = (isLower c \<or> isDigit c \<or> c = CHR ''_'')"

definition replaceNonIdent :: "string \<Rightarrow> string" where
  "replaceNonIdent s = map (\<lambda>c. if isIdentChar c then c else CHR ''_'') s"

text \<open>
  \<^verbatim>\<open>.replace(/^_+|_+$/g, '')\<close>: the run of underscores at the start and the run at the
  end are deleted.
\<close>

definition stripUnderscores :: "string \<Rightarrow> string" where
  "stripUnderscores s =
     rev (dropWhile (\<lambda>c. c = CHR ''_'') (rev (dropWhile (\<lambda>c. c = CHR ''_'') s)))"

text \<open>
  \<^verbatim>\<open>.replace(/_+/g, '_')\<close>: every run of underscores becomes one underscore, so an
  underscore that another underscore follows is dropped.
\<close>

fun collapseUnderscores :: "string \<Rightarrow> string" where
  "collapseUnderscores [] = []"
| "collapseUnderscores [c] = [c]"
| "collapseUnderscores (c # d # cs) =
     (if c = CHR ''_'' \<and> d = CHR ''_'' then collapseUnderscores (d # cs)
      else c # collapseUnderscores (d # cs))"

definition sanitizeFieldName :: "string \<Rightarrow> string" where
  "sanitizeFieldName name =
     collapseUnderscores (stripUnderscores (replaceNonIdent (toLowerCase name)))"

section \<open>Objects of the source language\<close>

text \<open>
  A plain object is an association list in the order in which the runtime enumerates
  its own keys: array-index keys (canonical decimal numerals below \<open>2^32 - 1\<close>) in
  ascending order first, then the other keys in the order of their creation.
  Assigning to the key \<^verbatim>\<open>__proto__\<close> sets the prototype and creates no own key.
\<close>

definition digitsToInt :: "string \<Rightarrow> int" where
  "digitsToInt s = foldl (\<lambda>n c. 10 * n + (int (code c) - 48)) 0 s"

definition isArrayIndex :: "string \<Rightarrow> bool" where
  "isArrayIndex k =
     (isDigits k \<and> (k = ''0'' \<or> take 1 k \<noteq> ''0'') \<and> length k \<le> 10 \<and>
      digitsToInt k < 4294967295)"

fun insertIndexKey :: "string \<Rightarrow> 'a \<Rightarrow> (string \<times> 'a) list \<Rightarrow> (string \<times> 'a) list" where
  "insertIndexKey k v [] = [(k, v)]"
| "insertIndexKey k v ((k', v') # rest) =
     (if isArrayIndex k' \<and> digitsToInt k' < digitsToInt k
      then (k', v') # insertIndexKey k v rest
      else (k, v) # (k', v') # rest)"

text \<open>\<^verbatim>\<open>obj[k] = v\<close>\<close>

definition setProperty :: "string \<Rightarrow> 'a \<Rightarrow> (string \<times> 'a) list \<Rightarrow> (string \<times> 'a) list" where
  "setProperty k v obj =
     (if k = ''__proto__'' then obj
      else if k \<in> set (map fst obj)
        then map (\<lambda>kv. if fst kv = k then (k, v) else kv) obj
      else if isArrayIndex k then insertIndexKey k v obj
      else obj @ [(k, v)])"

text \<open>\<^verbatim>\<open>Object.keys(obj)\<close>\<close>

definition keys :: "(string \<times> 'a) list \<Rightarrow> string list" where
  "keys obj = map fst obj"

section \<open>Content analyzers\<close>

text \<open>
  The value that \<^verbatim>\<open>JSON.parse\<close> returns. A boolean, number or string leaf is kept
  as \<^verbatim>\<open>String(value)\<close>, which is all the generator reads of it. The entries of an
  object are in the order of \<^verbatim>\<open>Object.entries\<close>.
\<close>

datatype json =
  JNull
| JPrim string
| JArray "json list"
| JObject "(string \<times> json) list"

text \<open>
  The shape of one inferred field: \<^verbatim>\<open>{type, required}\<close>, or for an array-valued key
  \<^verbatim>\<open>{type: 'relation', relatedTable, childStructure}\<close>, where the child structure may be
  \<^verbatim>\<open>null\<close>. A structure is an object from field names to shapes.
\<close>

datatype shape =
  Plain ptype bool
| Relation string "(string \<times> shape) list option"

type_synonym "structure" = "(string \<times> shape) list"

text \<open>
  The collaborators outside the generator: the file system behind \<^verbatim>\<open>fs.readFile\<close>
  (\<open>None\<close> when the read is rejected), the runtime's \<^verbatim>\<open>JSON.parse\<close> (\<open>None\<close> when it
  throws) and the clock behind \<^verbatim>\<open>new Date().toISOString()\<close>.
\<close>

record env =
  readFile :: "string \<Rightarrow> string option"
  JSON_parse :: "string \<Rightarrow> json option"
  now :: string

record fileInfo =
  path :: string
  originalName :: string
  mimeType :: string
  size_bytes :: nat
  extension :: string

record analysis =
  analysis_fields :: "structure"
  analysis_type :: string
  hasMetadata :: bool
  "structure" :: "structure option"

record analyzedData =
  content :: "(fileInfo \<times> analysis) list"
  "structure" :: "structure"
  commonFields :: "string set"
  mediaFiles :: "fileInfo list"

function inferStructureFromObject :: "json \<Rightarrow> nat \<Rightarrow> structure option" where
  "inferStructureFromObject obj depth =
     (if depth > 3 then None
      else case obj of
        JArray items \<Rightarrow>
          (case items of
             [] \<Rightarrow> None
           | first # _ \<Rightarrow> inferStructureFromObject first (depth + 1))
      | JObject entries \<Rightarrow>
          Some (fold (\<lambda>entry struct.
                  let fieldName = sanitizeFieldName (fst entry) in
                  case snd entry of
                    JArray vs \<Rightarrow>
                      setProperty fieldName
                        (Relation fieldName
                           (case vs of
                              [] \<Rightarrow> None
                            | v0 # _ \<Rightarrow> inferStructureFromObject v0 (depth + 1)))
                        struct
                  | JObject _ \<Rightarrow> setProperty fieldName (Plain TJson False) struct
                  | JNull \<Rightarrow> setProperty fieldName (Plain (inferType None) False) struct
                  | JPrim s \<Rightarrow> setProperty fieldName (Plain (inferType (Some s)) False) struct)
                entries [])
      | _ \<Rightarrow> Some [])"
  by pat_completeness auto
termination
  by (relation "measure (\<lambda>(obj, depth). 4 - depth)") auto

definition analyzeJSON :: "env \<Rightarrow> string \<Rightarrow> structure option" where
  "analyzeJSON e cont =
     (case JSON_parse e cont of
        None \<Rightarrow> None
      | Some data \<Rightarrow> inferStructureFromObject data 0)"

text \<open>\<^verbatim>\<open>fields[k].type = t\<close> on a field that is there.\<close>

definition setFieldType :: "string \<Rightarrow> ptype \<Rightarrow> structure \<Rightarrow> structure" where
  "setFieldType k t fs =
     map (\<lambda>kv. if fst kv = k
               then (k, case snd kv of Plain _ r \<Rightarrow> Plain t r | other \<Rightarrow> other)
               else kv) fs"

definition analyzeCSV :: "string \<Rightarrow> structure option" where
  "analyzeCSV cont =
     (let lines = filter (\<lambda>line. trim line \<noteq> []) (split (CHR 0x0A) cont) in
      case lines of
        [] \<Rightarrow> None
      | line0 # others \<Rightarrow>
          (let headers = map trim (split (CHR '','') line0);
               fields0 = fold (\<lambda>header fs.
                           setProperty (sanitizeFieldName header) (Plain TString False) fs)
                         headers []
           in case others of
                [] \<Rightarrow> Some fields0
              | line1 # _ \<Rightarrow>
                  (let sampleRow = split (CHR '','') line1 in
                   Some (fold (\<lambda>(header, index) fs.
                           let value = (if index < length sampleRow
                                        then Some (trim (sampleRow ! index)) else None)
                           in setFieldType (sanitizeFieldName header) (inferType value) fs)
                         (zip headers [0 ..< length headers]) fields0))))"

text \<open>
  One attempt of \<^verbatim>\<open>/<(\w+)>([^<]*)<\/\1>/\<close> at the start of the text: the tag name, the
  enclosed text and the rest of the text behind the match.
\<close>

definition matchTagAt :: "string \<Rightarrow> (string \<times> string \<times> string) option" where
  "matchTagAt s =
     (case s of
        [] \<Rightarrow> None
      | c # s1 \<Rightarrow>
          (let tag = takeWhile isWordChar s1;
               r1 = dropWhile isWordChar s1;
               val = takeWhile (\<lambda>d. d \<noteq> CHR ''<'') (drop 1 r1);
               r3 = dropWhile (\<lambda>d. d \<noteq> CHR ''<'') (drop 1 r1)
           in if c = CHR ''<'' \<and> tag \<noteq> [] \<and> take 1 r1 = ''>'' \<and>
                 take (2 + length tag + 1) r3 = ''</'' @ tag @ ''>''
              then Some (tag, val, drop (2 + length tag + 1) r3)
              else None))"

text \<open>
  The \<^verbatim>\<open>exec\<close> loop of \<^verbatim>\<open>analyzeXML\<close>: a match continues behind itself, a failed attempt
  one character further. The first occurrence of a field name wins; a name that the
  object inherits (\<^verbatim>\<open>constructor\<close>, the one inherited key that a sanitized name can
  be) reads as present.
\<close>

function xmlLoop :: "string \<Rightarrow> structure \<Rightarrow> structure" where
  "xmlLoop s fs =
     (case matchTagAt s of
        Some m \<Rightarrow>
          (let fieldName = sanitizeFieldName (fst m);
               val = fst (snd m);
               rest = snd (snd m)
           in xmlLoop rest
                (if \<not> (fieldName \<in> set (keys fs) \<or> fieldName = ''constructor'')
                 then setProperty fieldName (Plain (inferType (Some val)) False) fs
                 else fs))
      | None \<Rightarrow> (case s of [] \<Rightarrow> fs | _ # s' \<Rightarrow> xmlLoop s' fs))"
  by pat_completeness auto
termination
proof (relation "measure (\<lambda>(s, fs). length s)", goal_cases)
  case 1
  show ?case by simp
next
  case (2 s fs c s')
  then show ?case by simp
next
  case (3 s fs m fieldName val rest)
  from 3(1) obtain c s1 where s: "s = c # s1"
    by (cases s) (auto simp: matchTagAt_def)
  let ?r1 = "dropWhile isWordChar s1"
  let ?r3 = "dropWhile (\<lambda>d. d \<noteq> CHR ''<'') (drop 1 ?r1)"
  from 3(1) s have "snd (snd m) = drop (2 + length (takeWhile isWordChar s1) + 1) ?r3"
    by (auto simp: matchTagAt_def Let_def split: if_splits)
  then have "length (snd (snd m)) \<le> length ?r3" by simp
  also have "\<dots> \<le> length (drop 1 ?r1)" by (rule length_dropWhile_le)
  also have "\<dots> \<le> length ?r1" by simp
  also have "\<dots> \<le> length s1" by (rule length_dropWhile_le)
  finally have "length rest < length s" using s 3(4) by simp
  then show ?case by simp
qed

definition analyzeXML :: "string \<Rightarrow> structure option" where
  "analyzeXML cont = Some (xmlLoop cont [])"

text \<open>\<^verbatim>\<open>/\d{4}-\d{2}-\d{2}/.test(content)\<close>: a match anywhere in the text.\<close>

fun containsDate :: "string \<Rightarrow> bool" where
  "containsDate [] = False"
| "containsDate (c # cs) = (isDate (take 10 (c # cs)) \<or> containsDate cs)"

definition analyzeText :: "string \<Rightarrow> structure option" where
  "analyzeText cont =
     (let fields0 = [(''title'', Plain TString True),
                     (''content'', Plain TText True),
                     (''excerpt'', Plain TText False)];
          fields1 = (if includesChar cont (CHR ''@'') \<and> includesChar cont (CHR ''.'')
                     then setProperty ''author_email'' (Plain TString False) fields0
                     else fields0);
          fields2 = (if containsDate cont
                     then setProperty ''published_date'' (Plain TDate False) fields1
                     else fields1)
      in Some fields2)"

definition analyzeContent :: "env \<Rightarrow> string \<Rightarrow> fileInfo \<Rightarrow> analysis" where
  "analyzeContent e cont fi =
     (let a = \<lparr>analysis_fields = [], analysis_type = ''unknown'', hasMetadata = False,
                analysis.structure = None\<rparr>
      in if extension fi = ''.json''
           then a\<lparr>analysis.structure := analyzeJSON e cont, analysis_type := ''structured''\<rparr>
         else if extension fi = ''.csv''
           then a\<lparr>analysis.structure := analyzeCSV cont, analysis_type := ''tabular''\<rparr>
         else if extension fi = ''.xml''
           then a\<lparr>analysis.structure := analyzeXML cont, analysis_type := ''structured''\<rparr>
         else if extension fi = ''.md'' \<or> extension fi = ''.txt''
           then a\<lparr>analysis.structure := analyzeText cont, analysis_type := ''content''\<rparr>
         else a\<lparr>analysis.structure := analyzeText cont, analysis_type := ''document''\<rparr>)"

text \<open>
  One turn of the loop of \<^verbatim>\<open>analyzeFiles\<close>. A rejected read lands in the
  \<^verbatim>\<open>catch\<close> block, which logs and leaves the aggregate as it is.
\<close>

definition analyzeFile :: "env \<Rightarrow> fileInfo \<Rightarrow> analyzedData \<Rightarrow> analyzedData" where
  "analyzeFile e fi ad =
     (case readFile e (path fi) of
        None \<Rightarrow> ad
      | Some cont \<Rightarrow>
          (let a = analyzeContent e cont fi;
               ad1 = ad\<lparr>content := content ad @ [(fi, a)]\<rparr>
           in fold (\<lambda>field d. d\<lparr>commonFields := insert field (commonFields d)\<rparr>)
                (keys (analysis_fields a)) ad1))"

definition analyzeFiles :: "env \<Rightarrow> fileInfo list \<Rightarrow> analyzedData" where
  "analyzeFiles e fileInfos =
     fold (analyzeFile e) fileInfos
       \<lparr>content = [], analyzedData.structure = [], commonFields = {}, mediaFiles = []\<rparr>"

section \<open>Data model\<close>

text \<open>A literal default value of a field: a string, a boolean or a number.\<close>

datatype default_value = LStr string | LBool bool | LNum nat

text \<open>
  One column. The modifiers \<^verbatim>\<open>primaryKey\<close>, \<^verbatim>\<open>autoIncrement\<close> and \<^verbatim>\<open>unique\<close> are only
  ever tested for truth, so an absent one is \<open>False\<close>; an absent \<^verbatim>\<open>default\<close>,
  \<^verbatim>\<open>length\<close>, \<^verbatim>\<open>precision\<close> or \<^verbatim>\<open>scale\<close> is \<open>None\<close>.
\<close>

record field =
  name :: string
  field_type :: ptype
  required :: bool
  primaryKey :: bool
  autoIncrement :: bool
  unique :: bool
  field_default :: "default_value option"
  field_length :: "nat option"
  precision :: "nat option"
  scale :: "nat option"

text \<open>The object literal \<^verbatim>\<open>{ name: n, type: t, required: r }\<close>.\<close>

definition fld :: "string \<Rightarrow> ptype \<Rightarrow> bool \<Rightarrow> field" where
  "fld n t r =
     \<lparr>field.name = n, field_type = t, required = r, primaryKey = False,
      autoIncrement = False, unique = False, field_default = None, field_length = None,
      precision = None, scale = None\<rparr>"

record table =
  name :: string
  table_fields :: "field list"

text \<open>
  The configuration as the server builds it from the request: \<^verbatim>\<open>websiteType\<close> and
  \<^verbatim>\<open>projectName\<close> are passed on as received and may be \<^verbatim>\<open>undefined\<close>; the other
  options have defaults.
\<close>

record config =
  websiteType :: "string option"
  projectName :: "string option"
  databaseType :: string
  tablePrefix :: string
  includeMetadata :: bool
  includeImages :: bool

type_synonym relationship = "string \<times> string"

record SchemaGenerator =
  config :: config
  tables :: "table list"
  relationships :: "relationship list"
  metadata :: "(string \<times> json) list"

record SchemaResult =
  sql :: string
  tables :: "table list"
  totalFields :: nat
  metadata :: "(string \<times> json) list"
  relationships :: "relationship list"

datatype error = TypeError

definition SchemaGenerator_constructor :: "config \<Rightarrow> SchemaGenerator" where
  "SchemaGenerator_constructor cfg =
     \<lparr>config = cfg, SchemaGenerator.tables = [], SchemaGenerator.relationships = [],
      SchemaGenerator.metadata = []\<rparr>"

section \<open>Domain template builder and feature augmenters\<close>

definition tableName :: "SchemaGenerator \<Rightarrow> string \<Rightarrow> string" where
  "tableName this n = tablePrefix (config this) @ n"

text \<open>\<^verbatim>\<open>this.tables.push(t)\<close>, and a sequence of pushes.\<close>

definition push :: "table \<Rightarrow> SchemaGenerator \<Rightarrow> SchemaGenerator" where
  "push t this = this\<lparr>SchemaGenerator.tables := SchemaGenerator.tables this @ [t]\<rparr>"

definition pushAll :: "table list \<Rightarrow> SchemaGenerator \<Rightarrow> SchemaGenerator" where
  "pushAll ts this = fold push ts this"

definition generateBlogStructure :: "SchemaGenerator \<Rightarrow> analyzedData \<Rightarrow> SchemaGenerator" where
  "generateBlogStructure this analyzedData =
     pushAll
       [\<lparr>table.name = tableName this ''posts'',
          table_fields =
           [(fld ''id'' TInteger True)\<lparr>primaryKey := True, autoIncrement := True\<rparr>,
            (fld ''title'' TString True)\<lparr>field_length := Some 255\<rparr>,
            (fld ''slug'' TString True)\<lparr>field_length := Some 255, unique := True\<rparr>,
            fld ''content'' TText True,
            fld ''excerpt'' TText False,
            fld ''author_id'' TInteger False,
            fld ''category_id'' TInteger False,
            (fld ''status'' TString True)\<lparr>field_default := Some (LStr ''draft''), field_length := Some 20\<rparr>,
            fld ''published_at'' TTimestamp False,
            fld ''created_at'' TTimestamp True,
            fld ''updated_at'' TTimestamp True]\<rparr>,
        \<lparr>table.name = tableName this ''categories'',
          table_fields =
           [(fld ''id'' TInteger True)\<lparr>primaryKey := True, autoIncrement := True\<rparr>,
            (fld ''name'' TString True)\<lparr>field_length := Some 100\<rparr>,
            (fld ''slug'' TString True)\<lparr>field_length := Some 100, unique := True\<rparr>,
            fld ''description'' TText False,
            fld ''parent_id'' TInteger False,
            fld ''created_at'' TTimestamp True]\<rparr>,
        \<lparr>table.name = tableName this ''tags'',
          table_fields =
           [(fld ''id'' TInteger True)\<lparr>primaryKey := True, autoIncrement := True\<rparr>,
            (fld ''name'' TString True)\<lparr>field_length := Some 50, unique := True\<rparr>,
            (fld ''slug'' TString True)\<lparr>field_length := Some 50, unique := True\<rparr>,
            fld ''created_at'' TTimestamp True]\<rparr>,
        \<lparr>table.name = tableName this ''post_tags'',
          table_fields =
           [fld ''post_id'' TInteger True,
            fld ''tag_id'' TInteger True,
            fld ''created_at'' TTimestamp True]\<rparr>,
        \<lparr>table.name = tableName this ''authors'',
          table_fields =
           [(fld ''id'' TInteger True)\<lparr>primaryKey := True, autoIncrement := True\<rparr>,
            (fld ''name'' TString True)\<lparr>field_length := Some 100\<rparr>,
            (fld ''email'' TString True)\<lparr>field_length := Some 255, unique := True\<rparr>,
            fld ''bio'' TText False,
            (fld ''avatar_url'' TString False)\<lparr>field_length := Some 500\<rparr>,
            fld ''created_at'' TTimestamp True]\<rparr>,
        \<lparr>table.name = tableName this ''comments'',
          table_fields =
           [(fld ''id'' TInteger True)\<lparr>primaryKey := True, autoIncrement := True\<rparr>,
            fld ''post_id'' TInteger True,
            (fld ''author_name'' TString True)\<lparr>field_length := Some 100\<rparr>,
            (fld ''author_email'' TString True)\<lparr>field_length := Some 255\<rparr>,
            fld ''content'' TText True,
            (fld ''status'' TString True)\<lparr>field_default := Some (LStr ''pending''), field_length := Some 20\<rparr>,
            fld ''parent_id'' TInteger False,
            fld ''created_at'' TTimestamp True]\<rparr>]
       this"

definition generatePortfolioStructure :: "SchemaGenerator \<Rightarrow> analyzedData \<Rightarrow> SchemaGenerator" where
  "generatePortfolioStructure this analyzedData =
     pushAll
       [\<lparr>table.name = tableName this ''projects'',
          table_fields =
           [(fld ''id'' TInteger True)\<lparr>primaryKey := True, autoIncrement := True\<rparr>,
            (fld ''title'' TString True)\<lparr>field_length := Some 255\<rparr>,
            (fld ''slug'' TString True)\<lparr>field_length := Some 255, unique := True\<rparr>,
            fld ''description'' TText True,
            (fld ''client'' TString False)\<lparr>field_length := Some 100\<rparr>,
            (fld ''project_url'' TString False)\<lparr>field_length := Some 500\<rparr>,
            (fld ''github_url'' TString False)\<lparr>field_length := Some 500\<rparr>,
            (fld ''featured'' TBoolean True)\<lparr>field_default := Some (LBool False)\<rparr>,
            fld ''completed_at'' TDate False,
            fld ''created_at'' TTimestamp True,
            fld ''updated_at'' TTimestamp True]\<rparr>,
        \<lparr>table.name = tableName this ''skills'',
          table_fields =
           [(fld ''id'' TInteger True)\<lparr>primaryKey := True, autoIncrement := True\<rparr>,
            (fld ''name'' TString True)\<lparr>field_length := Some 50, unique := True\<rparr>,
            (fld ''category'' TString False)\<lparr>field_length := Some 50\<rparr>,
            fld ''proficiency'' TInteger False,
            fld ''created_at'' TTimestamp True]\<rparr>,
        \<lparr>table.name = tableName this ''project_skills'',
          table_fields =
           [fld ''project_id'' TInteger True,
            fld ''skill_id'' TInteger True]\<rparr>]
       this"

definition generateEcommerceStructure :: "SchemaGenerator \<Rightarrow> analyzedData \<Rightarrow> SchemaGenerator" where
  "generateEcommerceStructure this analyzedData =
     pushAll
       [\<lparr>table.name = tableName this ''products'',
          table_fields =
           [(fld ''id'' TInteger True)\<lparr>primaryKey := True, autoIncrement := True\<rparr>,
            (fld ''name'' TString True)\<lparr>field_length := Some 255\<rparr>,
            (fld ''slug'' TString True)\<lparr>field_length := Some 255, unique := True\<rparr>,
            fld ''description'' TText True,
            (fld ''price'' TDecimal True)\<lparr>precision := Some 10, scale := Some 2\<rparr>,
            (fld ''compare_price'' TDecimal False)\<lparr>precision := Some 10, scale := Some 2\<rparr>,
            (fld ''sku'' TString False)\<lparr>field_length := Some 100, unique := True\<rparr>,
            (fld ''stock_quantity'' TInteger True)\<lparr>field_default := Some (LNum 0)\<rparr>,
            fld ''category_id'' TInteger False,
            (fld ''status'' TString True)\<lparr>field_default := Some (LStr ''active''), field_length := Some 20\<rparr>,
            fld ''created_at'' TTimestamp True,
            fld ''updated_at'' TTimestamp True]\<rparr>,
        \<lparr>table.name = tableName this ''categories'',
          table_fields =
           [(fld ''id'' TInteger True)\<lparr>primaryKey := True, autoIncrement := True\<rparr>,
            (fld ''name'' TString True)\<lparr>field_length := Some 100\<rparr>,
            (fld ''slug'' TString True)\<lparr>field_length := Some 100, unique := True\<rparr>,
            fld ''parent_id'' TInteger False,
            fld ''created_at'' TTimestamp True]\<rparr>,
        \<lparr>table.name = tableName this ''orders'',
          table_fields =
           [(fld ''id'' TInteger True)\<lparr>primaryKey := True, autoIncrement := True\<rparr>,
            (fld ''order_number'' TString True)\<lparr>field_length := Some 50, unique := True\<rparr>,
            fld ''customer_id'' TInteger False,
            (fld ''total'' TDecimal True)\<lparr>precision := Some 10, scale := Some 2\<rparr>,
            (fld ''status'' TString True)\<lparr>field_default := Some (LStr ''pending''), field_length := Some 20\<rparr>,
            fld ''created_at'' TTimestamp True,
            fld ''updated_at'' TTimestamp True]\<rparr>]
       this"

definition generateDocumentationStructure :: "SchemaGenerator \<Rightarrow> analyzedData \<Rightarrow> SchemaGenerator" where
  "generateDocumentationStructure this analyzedData =
     pushAll
       [\<lparr>table.name = tableName this ''pages'',
          table_fields =
           [(fld ''id'' TInteger True)\<lparr>primaryKey := True, autoIncrement := True\<rparr>,
            (fld ''title'' TString True)\<lparr>field_length := Some 255\<rparr>,
            (fld ''slug'' TString True)\<lparr>field_length := Some 255, unique := True\<rparr>,
            fld ''content'' TText True,
            fld ''parent_id'' TInteger False,
            (fld ''order'' TInteger True)\<lparr>field_default := Some (LNum 0)\<rparr>,
            (fld ''version'' TString False)\<lparr>field_length := Some 20\<rparr>,
            fld ''created_at'' TTimestamp True,
            fld ''updated_at'' TTimestamp True]\<rparr>,
        \<lparr>table.name = tableName this ''sections'',
          table_fields =
           [(fld ''id'' TInteger True)\<lparr>primaryKey := True, autoIncrement := True\<rparr>,
            (fld ''name'' TString True)\<lparr>field_length := Some 100\<rparr>,
            (fld ''slug'' TString True)\<lparr>field_length := Some 100, unique := True\<rparr>,
            (fld ''order'' TInteger True)\<lparr>field_default := Some (LNum 0)\<rparr>,
            fld ''created_at'' TTimestamp True]\<rparr>]
       this"

definition generateCorporateStructure :: "SchemaGenerator \<Rightarrow> analyzedData \<Rightarrow> SchemaGenerator" where
  "generateCorporateStructure this analyzedData =
     pushAll
       [\<lparr>table.name = tableName this ''pages'',
          table_fields =
           [(fld ''id'' TInteger True)\<lparr>primaryKey := True, autoIncrement := True\<rparr>,
            (fld ''title'' TString True)\<lparr>field_length := Some 255\<rparr>,
            (fld ''slug'' TString True)\<lparr>field_length := Some 255, unique := True\<rparr>,
            fld ''content'' TText True,
            (fld ''meta_title'' TString False)\<lparr>field_length := Some 255\<rparr>,
            fld ''meta_description'' TText False,
            (fld ''template'' TString False)\<lparr>field_length := Some 50\<rparr>,
            (fld ''status'' TString True)\<lparr>field_default := Some (LStr ''draft''), field_length := Some 20\<rparr>,
            fld ''created_at'' TTimestamp True,
            fld ''updated_at'' TTimestamp True]\<rparr>,
        \<lparr>table.name = tableName this ''team_members'',
          table_fields =
           [(fld ''id'' TInteger True)\<lparr>primaryKey := True, autoIncrement := True\<rparr>,
            (fld ''name'' TString True)\<lparr>field_length := Some 100\<rparr>,
            (fld ''position'' TString True)\<lparr>field_length := Some 100\<rparr>,
            fld ''bio'' TText False,
            (fld ''email'' TString False)\<lparr>field_length := Some 255\<rparr>,
            (fld ''photo_url'' TString False)\<lparr>field_length := Some 500\<rparr>,
            (fld ''order'' TInteger True)\<lparr>field_default := Some (LNum 0)\<rparr>,
            fld ''created_at'' TTimestamp True]\<rparr>,
        \<lparr>table.name = tableName this ''services'',
          table_fields =
           [(fld ''id'' TInteger True)\<lparr>primaryKey := True, autoIncrement := True\<rparr>,
            (fld ''title'' TString True)\<lparr>field_length := Some 255\<rparr>,
            (fld ''slug'' TString True)\<lparr>field_length := Some 255, unique := True\<rparr>,
            fld ''description'' TText True,
            (fld ''icon'' TString False)\<lparr>field_length := Some 100\<rparr>,
            (fld ''featured'' TBoolean True)\<lparr>field_default := Some (LBool False)\<rparr>,
            fld ''created_at'' TTimestamp True]\<rparr>]
       this"

definition generateCustomStructure :: "SchemaGenerator \<Rightarrow> analyzedData \<Rightarrow> SchemaGenerator" where
  "generateCustomStructure this analyzedData =
     pushAll
       [\<lparr>table.name = tableName this ''content'',
          table_fields =
           [(fld ''id'' TInteger True)\<lparr>primaryKey := True, autoIncrement := True\<rparr>,
            (fld ''title'' TString True)\<lparr>field_length := Some 255\<rparr>,
            (fld ''slug'' TString True)\<lparr>field_length := Some 255, unique := True\<rparr>,
            fld ''body'' TText True,
            (fld ''type'' TString True)\<lparr>field_length := Some 50\<rparr>,
            (fld ''status'' TString True)\<lparr>field_default := Some (LStr ''draft''), field_length := Some 20\<rparr>,
            fld ''created_at'' TTimestamp True,
            fld ''updated_at'' TTimestamp True]\<rparr>]
       this"

definition addMetadataTables :: "SchemaGenerator \<Rightarrow> SchemaGenerator" where
  "addMetadataTables this =
     pushAll
       [\<lparr>table.name = tableName this ''metadata'',
          table_fields =
           [(fld ''id'' TInteger True)\<lparr>primaryKey := True, autoIncrement := True\<rparr>,
            (fld ''entity_type'' TString True)\<lparr>field_length := Some 50\<rparr>,
            fld ''entity_id'' TInteger True,
            (fld ''meta_key'' TString True)\<lparr>field_length := Some 100\<rparr>,
            fld ''meta_value'' TText False,
            fld ''created_at'' TTimestamp True]\<rparr>]
       this"

definition addMediaTables :: "SchemaGenerator \<Rightarrow> SchemaGenerator" where
  "addMediaTables this =
     pushAll
       [\<lparr>table.name = tableName this ''media'',
          table_fields =
           [(fld ''id'' TInteger True)\<lparr>primaryKey := True, autoIncrement := True\<rparr>,
            (fld ''filename'' TString True)\<lparr>field_length := Some 255\<rparr>,
            (fld ''original_name'' TString True)\<lparr>field_length := Some 255\<rparr>,
            (fld ''mime_type'' TString True)\<lparr>field_length := Some 100\<rparr>,
            fld ''size'' TInteger True,
            (fld ''url'' TString True)\<lparr>field_length := Some 500\<rparr>,
            (fld ''alt_text'' TString False)\<lparr>field_length := Some 255\<rparr>,
            fld ''width'' TInteger False,
            fld ''height'' TInteger False,
            fld ''uploaded_at'' TTimestamp True]\<rparr>]
       this"

definition generateStructure :: "SchemaGenerator \<Rightarrow> analyzedData \<Rightarrow> SchemaGenerator" where
  "generateStructure this analyzedData =
     (let websiteType = websiteType (config this);
          this1 = (if websiteType = Some ''blog''
                     then generateBlogStructure this analyzedData
                   else if websiteType = Some ''portfolio''
                     then generatePortfolioStructure this analyzedData
                   else if websiteType = Some ''ecommerce''
                     then generateEcommerceStructure this analyzedData
                   else if websiteType = Some ''documentation''
                     then generateDocumentationStructure this analyzedData
                   else if websiteType = Some ''corporate''
                     then generateCorporateStructure this analyzedData
                   else generateCustomStructure this analyzedData);
          this2 = (if includeMetadata (config this1) then addMetadataTables this1 else this1);
          this3 = (if includeImages (config this2) then addMediaTables this2 else this2)
      in this3)"

section \<open>Dialect renderers\<close>

text \<open>
  \<^verbatim>\<open>Array.prototype.join\<close>, and a number or a literal inside a template string. A
  number of the model is a natural number below \<open>10^21\<close>, the range in which a
  template string prints an integer in plain decimal, as \<open>showNat\<close> does; from
  \<open>10^21\<close> on the runtime prints the exponent form, which is outside the model. The
  numbers of the catalog are at most 500.
\<close>

fun join :: "string \<Rightarrow> string list \<Rightarrow> string" where
  "join sep [] = []"
| "join sep [x] = x"
| "join sep (x # y # ys) = x @ sep @ join sep (y # ys)"

definition digitChar :: "nat \<Rightarrow> char" where
  "digitChar d = char_of (48 + d)"

fun showNat :: "nat \<Rightarrow> string" where
  "showNat n = (if n < 10 then [digitChar n] else showNat (n div 10) @ [digitChar (n mod 10)])"

declare showNat.simps [simp del]

definition showLiteral :: "default_value \<Rightarrow> string" where
  "showLiteral l =
     (case l of
        LStr v \<Rightarrow> v
      | LBool b \<Rightarrow> (if b then ''true'' else ''false'')
      | LNum n \<Rightarrow> showNat n)"

definition showOptional :: "string option \<Rightarrow> string" where
  "showOptional v = (case v of None \<Rightarrow> ''undefined'' | Some x \<Rightarrow> x)"

text \<open>\<^verbatim>\<open>x || d\<close> for an optional number: an absent number and 0 give the default.\<close>

definition orDefault :: "nat option \<Rightarrow> nat \<Rightarrow> nat" where
  "orDefault x d = (case x of None \<Rightarrow> d | Some n \<Rightarrow> if n = 0 then d else n)"

definition newline :: string where
  "newline = [CHR 0x0A]"

definition backtick :: string where
  "backtick = [CHR 0x60]"

definition dquote :: string where
  "dquote = [CHR 0x22]"

definition mapTypeToMySQL :: "field \<Rightarrow> string" where
  "mapTypeToMySQL f =
     (case field_type f of
        TInteger \<Rightarrow> ''INT''
      | TString \<Rightarrow> ''VARCHAR('' @ showNat (orDefault (field_length f) 255) @ '')''
      | TText \<Rightarrow> ''TEXT''
      | TBoolean \<Rightarrow> ''BOOLEAN''
      | TDate \<Rightarrow> ''DATE''
      | TTimestamp \<Rightarrow> ''TIMESTAMP DEFAULT CURRENT_TIMESTAMP''
      | TDecimal \<Rightarrow>
          ''DECIMAL('' @ showNat (orDefault (precision f) 10) @ '','' @
          showNat (orDefault (scale f) 2) @ '')''
      | _ \<Rightarrow> ''VARCHAR(255)'')"

definition mapTypeToPostgreSQL :: "field \<Rightarrow> string" where
  "mapTypeToPostgreSQL f =
     (case field_type f of
        TInteger \<Rightarrow> ''INTEGER''
      | TString \<Rightarrow> ''VARCHAR('' @ showNat (orDefault (field_length f) 255) @ '')''
      | TText \<Rightarrow> ''TEXT''
      | TBoolean \<Rightarrow> ''BOOLEAN''
      | TDate \<Rightarrow> ''DATE''
      | TTimestamp \<Rightarrow> ''TIMESTAMP DEFAULT CURRENT_TIMESTAMP''
      | TDecimal \<Rightarrow>
          ''DECIMAL('' @ showNat (orDefault (precision f) 10) @ '','' @
          showNat (orDefault (scale f) 2) @ '')''
      | _ \<Rightarrow> ''VARCHAR(255)'')"

definition mapTypeToSQLite :: "field \<Rightarrow> string" where
  "mapTypeToSQLite f =
     (case field_type f of
        TInteger \<Rightarrow> ''INTEGER''
      | TString \<Rightarrow> ''TEXT''
      | TText \<Rightarrow> ''TEXT''
      | TBoolean \<Rightarrow> ''INTEGER''
      | TDate \<Rightarrow> ''TEXT''
      | TTimestamp \<Rightarrow> ''TEXT''
      | TDecimal \<Rightarrow> ''REAL''
      | _ \<Rightarrow> ''TEXT'')"

definition mapTypeToMongo :: "ptype \<Rightarrow> string" where
  "mapTypeToMongo t =
     (case t of
        TInteger \<Rightarrow> ''int''
      | TString \<Rightarrow> ''string''
      | TText \<Rightarrow> ''string''
      | TBoolean \<Rightarrow> ''bool''
      | TDate \<Rightarrow> ''date''
      | TTimestamp \<Rightarrow> ''date''
      | TDecimal \<Rightarrow> ''double''
      | _ \<Rightarrow> ''string'')"

subsection \<open>MySQL\<close>

definition mysqlFieldDefinition :: "field \<Rightarrow> string" where
  "mysqlFieldDefinition f =
     (let def0 = ''  '' @ backtick @ field.name f @ backtick @ '' '' @ mapTypeToMySQL f;
          def1 = (if required f then def0 @ '' NOT NULL'' else def0);
          def2 = (if autoIncrement f then def1 @ '' AUTO_INCREMENT'' else def1);
          def3 = (case field_default f of
                    Some d \<Rightarrow> def2 @ '' DEFAULT '' @ [CHR 0x27] @ showLiteral d @ [CHR 0x27]
                  | None \<Rightarrow> def2);
          def4 = (if unique f then def3 @ '' UNIQUE'' else def3)
      in def4)"

definition mysqlTable :: "table \<Rightarrow> string" where
  "mysqlTable t =
     (let fieldDefinitions = map mysqlFieldDefinition (table_fields t);
          primaryKeys = filter primaryKey (table_fields t);
          fieldDefinitions' =
            (if length primaryKeys > 0
             then fieldDefinitions @
                  [''  PRIMARY KEY ('' @ backtick @
                   join (backtick @ '', '' @ backtick) (map field.name primaryKeys) @
                   backtick @ '')'']
             else fieldDefinitions)
      in ''CREATE TABLE IF NOT EXISTS '' @ backtick @ table.name t @ backtick @ '' ('' @ newline @
         join ('','' @ newline) fieldDefinitions' @
         newline @ '') ENGINE=InnoDB DEFAULT CHARSET=utf8mb4 COLLATE=utf8mb4_unicode_ci;'' @
         newline @ newline)"

definition generateMySQLSchema :: "env \<Rightarrow> SchemaGenerator \<Rightarrow> string" where
  "generateMySQLSchema e this =
     (let sql0 = ''-- Generated MySQL Schema for '' @ showOptional (projectName (config this)) @
                 newline;
          sql1 = sql0 @ ''-- Generated at: '' @ now e @ newline @ newline
      in fold (\<lambda>t acc. acc @ mysqlTable t) (SchemaGenerator.tables this) sql1)"

subsection \<open>PostgreSQL\<close>

definition postgresFieldDefinition :: "field \<Rightarrow> string" where
  "postgresFieldDefinition f =
     (let def0 = ''  '' @ dquote @ field.name f @ dquote @ '' '' @ mapTypeToPostgreSQL f
      in if primaryKey f \<and> autoIncrement f
         then ''  '' @ dquote @ field.name f @ dquote @ '' SERIAL PRIMARY KEY''
         else (let def1 = (if required f then def0 @ '' NOT NULL'' else def0);
                   def2 = (case field_default f of
                             Some d \<Rightarrow>
                               def1 @ '' DEFAULT '' @ [CHR 0x27] @ showLiteral d @ [CHR 0x27]
                           | None \<Rightarrow> def1);
                   def3 = (if unique f then def2 @ '' UNIQUE'' else def2)
               in def3))"

definition postgresTable :: "table \<Rightarrow> string" where
  "postgresTable t =
     (let fieldDefinitions = map postgresFieldDefinition (table_fields t)
      in ''CREATE TABLE IF NOT EXISTS '' @ dquote @ table.name t @ dquote @ '' ('' @ newline @
         join ('','' @ newline) fieldDefinitions @
         newline @ '');'' @ newline @ newline)"

definition generatePostgreSQLSchema :: "env \<Rightarrow> SchemaGenerator \<Rightarrow> string" where
  "generatePostgreSQLSchema e this =
     (let sql0 = ''-- Generated PostgreSQL Schema for '' @
                 showOptional (projectName (config this)) @ newline;
          sql1 = sql0 @ ''-- Generated at: '' @ now e @ newline @ newline
      in fold (\<lambda>t acc. acc @ postgresTable t) (SchemaGenerator.tables this) sql1)"

subsection \<open>SQLite\<close>

definition sqliteFieldDefinition :: "field \<Rightarrow> string" where
  "sqliteFieldDefinition f =
     (let def0 = ''  '' @ dquote @ field.name f @ dquote @ '' '' @ mapTypeToSQLite f;
          def1 = (if primaryKey f then def0 @ '' PRIMARY KEY'' else def0);
          def2 = (if autoIncrement f then def1 @ '' AUTOINCREMENT'' else def1);
          def3 = (if required f then def2 @ '' NOT NULL'' else def2);
          def4 = (case field_default f of
                    Some d \<Rightarrow> def3 @ '' DEFAULT '' @ [CHR 0x27] @ showLiteral d @ [CHR 0x27]
                  | None \<Rightarrow> def3);
          def5 = (if unique f then def4 @ '' UNIQUE'' else def4)
      in def5)"

definition sqliteTable :: "table \<Rightarrow> string" where
  "sqliteTable t =
     (let fieldDefinitions = map sqliteFieldDefinition (table_fields t)
      in ''CREATE TABLE IF NOT EXISTS '' @ dquote @ table.name t @ dquote @ '' ('' @ newline @
         join ('','' @ newline) fieldDefinitions @
         newline @ '');'' @ newline @ newline)"

definition generateSQLiteSchema :: "env \<Rightarrow> SchemaGenerator \<Rightarrow> string" where
  "generateSQLiteSchema e this =
     (let sql0 = ''-- Generated SQLite Schema for '' @ showOptional (projectName (config this)) @
                 newline;
          sql1 = sql0 @ ''-- Generated at: '' @ now e @ newline @ newline
      in fold (\<lambda>t acc. acc @ sqliteTable t) (SchemaGenerator.tables this) sql1)"

subsection \<open>MongoDB\<close>

text \<open>
  The values that the document-store renderer hands to \<^verbatim>\<open>JSON.stringify\<close>: strings,
  arrays and objects.
\<close>

datatype jsonv =
  VStr string
| VArr "jsonv list"
| VObj "(string \<times> jsonv) list"

text \<open>
  \<^verbatim>\<open>JSON.stringify(value, null, 2)\<close>. A string is quoted with the escapes of the
  serializer: the two-character escapes for backspace, tab, line feed, form feed,
  carriage return, the double quote and the backslash, and \<^verbatim>\<open>\u00XX\<close> for the other
  control characters.
\<close>

definition hexDigit :: "nat \<Rightarrow> char" where
  "hexDigit d = (if d < 10 then char_of (48 + d) else char_of (87 + d))"

definition quoteChar :: "char \<Rightarrow> string" where
  "quoteChar c =
     (if c = CHR 0x08 then [CHR 0x5C, CHR ''b'']
      else if c = CHR 0x09 then [CHR 0x5C, CHR ''t'']
      else if c = CHR 0x0A then [CHR 0x5C, CHR ''n'']
      else if c = CHR 0x0C then [CHR 0x5C, CHR ''f'']
      else if c = CHR 0x0D then [CHR 0x5C, CHR ''r'']
      else if c = CHR 0x22 then [CHR 0x5C, CHR 0x22]
      else if c = CHR 0x5C then [CHR 0x5C, CHR 0x5C]
      else if code c < 32
        then [CHR 0x5C, CHR ''u'', CHR ''0'', CHR ''0'', hexDigit (code c div 16),
              hexDigit (code c mod 16)]
      else [c])"

definition quoteJSON :: "string \<Rightarrow> string" where
  "quoteJSON v = dquote @ concat (map quoteChar v) @ dquote"

fun stringify :: "string \<Rightarrow> jsonv \<Rightarrow> string" where
  "stringify indent (VStr v) = quoteJSON v"
| "stringify indent (VArr items) =
     (if items = [] then ''[]''
      else ''['' @ newline @ (indent @ ''  '') @
           join ('','' @ newline @ (indent @ ''  ''))
             (map (stringify (indent @ ''  '')) items) @
           newline @ indent @ '']'')"
| "stringify indent (VObj props) =
     (if props = [] then ''{}''
      else ''{'' @ newline @ (indent @ ''  '') @
           join ('','' @ newline @ (indent @ ''  ''))
             (map (\<lambda>kv. quoteJSON (fst kv) @ '': '' @ stringify (indent @ ''  '') (snd kv))
                props) @
           newline @ indent @ ''}'')"

definition JSON_stringify :: "jsonv \<Rightarrow> string" where
  "JSON_stringify v = stringify [] v"

text \<open>\<^verbatim>\<open>.replace(/\s+/g, '_')\<close>: every run of white space becomes one underscore.\<close>

fun replaceWhiteSpaceRuns :: "string \<Rightarrow> string" where
  "replaceWhiteSpaceRuns [] = []"
| "replaceWhiteSpaceRuns [c] = (if isWhiteSpace c then ''_'' else [c])"
| "replaceWhiteSpaceRuns (c # d # cs) =
     (if isWhiteSpace c
      then (if isWhiteSpace d then replaceWhiteSpaceRuns (d # cs)
            else CHR ''_'' # replaceWhiteSpaceRuns (d # cs))
      else c # replaceWhiteSpaceRuns (d # cs))"

definition generateMongoProperties :: "field list \<Rightarrow> (string \<times> jsonv) list" where
  "generateMongoProperties fs =
     fold (\<lambda>f properties.
             if autoIncrement f then properties
             else setProperty (field.name f)
                    (VObj [(''bsonType'', VStr (mapTypeToMongo (field_type f))),
                           (''description'', VStr (field.name f @ '' field''))])
                    properties)
       fs []"

text \<open>The \<^verbatim>\<open>required\<close> list of a collection's validator.\<close>

definition mongoRequired :: "field list \<Rightarrow> string list" where
  "mongoRequired fs = map field.name (filter (\<lambda>f. required f \<and> \<not> autoIncrement f) fs)"

definition mongoCollection :: "table \<Rightarrow> jsonv" where
  "mongoCollection t =
     VObj [(''name'', VStr (table.name t)),
           (''validator'',
            VObj [(''$jsonSchema'',
                   VObj [(''bsonType'', VStr ''object''),
                         (''required'', VArr (map VStr (mongoRequired (table_fields t)))),
                         (''properties'', VObj (generateMongoProperties (table_fields t)))])])]"

text \<open>
  \<^verbatim>\<open>this.config.projectName.toLowerCase()\<close> throws a \<^verbatim>\<open>TypeError\<close> when the project
  name is \<^verbatim>\<open>undefined\<close>.
\<close>

definition generateMongoDBSchema :: "SchemaGenerator \<Rightarrow> error + string" where
  "generateMongoDBSchema this =
     (case projectName (config this) of
        None \<Rightarrow> Inl TypeError
      | Some p \<Rightarrow>
          Inr (JSON_stringify
                 (VObj [(''database'', VStr (replaceWhiteSpaceRuns (toLowerCase p))),
                        (''collections'',
                         VArr (map mongoCollection (SchemaGenerator.tables this)))])))"

definition generateSQL :: "env \<Rightarrow> SchemaGenerator \<Rightarrow> error + string" where
  "generateSQL e this =
     (let dbType = databaseType (config this)
      in if dbType = ''mysql'' then Inr (generateMySQLSchema e this)
         else if dbType = ''postgresql'' then Inr (generatePostgreSQLSchema e this)
         else if dbType = ''sqlite'' then Inr (generateSQLiteSchema e this)
         else if dbType = ''mongodb'' then generateMongoDBSchema this
         else Inr (generateMySQLSchema e this))"

section \<open>Pipeline orchestrator\<close>

text \<open>
  \<^verbatim>\<open>generateFromFiles\<close> returns the result, or the error that it throws, together
  with the generator as the call leaves it. The result holds the generator's own
  \<^verbatim>\<open>tables\<close> array; its value here is the array at the time of the return.
\<close>

definition generateFromFiles ::
  "env \<Rightarrow> SchemaGenerator \<Rightarrow> fileInfo list \<Rightarrow> (error + SchemaResult) \<times> SchemaGenerator" where
  "generateFromFiles e this fileInfos =
     (let analyzedData = analyzeFiles e fileInfos;
          this' = generateStructure this analyzedData
      in case generateSQL e this' of
           Inl err \<Rightarrow> (Inl err, this')
         | Inr rendered \<Rightarrow>
             (Inr \<lparr>sql = rendered,
                   SchemaResult.tables = SchemaGenerator.tables this',
                   totalFields =
                     foldl (\<lambda>sum t. sum + length (table_fields t)) 0
                       (SchemaGenerator.tables this'),
                   SchemaResult.metadata = SchemaGenerator.metadata this',
                   SchemaResult.relationships = SchemaGenerator.relationships this'\<rparr>,
              this'))"

section \<open>What the specification says of a sanitized name\<close>

text \<open>
  The shape that the specification promises for a sanitized name: only characters of
  \<^verbatim>\<open>[a-z0-9_]\<close>, no underscore at the start, none at the end, and no two in a row.
\<close>

definition startsWithUnderscore :: "string \<Rightarrow> bool" where
  "startsWithUnderscore s = (case s of [] \<Rightarrow> False | c # _ \<Rightarrow> c = CHR ''_'')"

definition endsWithUnderscore :: "string \<Rightarrow> bool" where
  "endsWithUnderscore s = startsWithUnderscore (rev s)"

fun hasDoubleUnderscore :: "string \<Rightarrow> bool" where
  "hasDoubleUnderscore (c # d # cs) =
     ((c = CHR ''_'' \<and> d = CHR ''_'') \<or> hasDoubleUnderscore (d # cs))"
| "hasDoubleUnderscore _ = False"

definition isSanitized :: "string \<Rightarrow> bool" where
  "isSanitized s =
     (list_all isIdentChar s \<and> \<not> startsWithUnderscore s \<and> \<not> endsWithUnderscore s \<and>
      \<not> hasDoubleUnderscore s)"

section \<open>Notions used in the statements\<close>

text \<open>
  The tables that one run of \<open>generateStructure\<close> adds to a generator with the given
  configuration, read off a fresh generator.
\<close>

definition templateTables :: "config \<Rightarrow> table list" where
  "templateTables cfg =
     SchemaGenerator.tables
       (generateStructure (SchemaGenerator_constructor cfg)
          \<lparr>content = [], analyzedData.structure = [], commonFields = {}, mediaFiles = []\<rparr>)"

text \<open>The sum of the field counts of a table list.\<close>

definition countFields :: "table list \<Rightarrow> nat" where
  "countFields ts = sum_list (map (\<lambda>t. length (table_fields t)) ts)"

text \<open>The table that \<open>addMetadataTables\<close> pushes, and the one of \<open>addMediaTables\<close>.\<close>

definition metadataTableOf :: "config \<Rightarrow> table" where
  "metadataTableOf cfg =
     last (SchemaGenerator.tables (addMetadataTables (SchemaGenerator_constructor cfg)))"

definition mediaTableOf :: "config \<Rightarrow> table" where
  "mediaTableOf cfg =
     last (SchemaGenerator.tables (addMediaTables (SchemaGenerator_constructor cfg)))"

text \<open>The entry that one file contributes to the aggregate, if its read succeeds.\<close>

definition analyzed :: "env \<Rightarrow> fileInfo \<Rightarrow> (fileInfo \<times> analysis) option" where
  "analyzed e fi =
     (case readFile e (path fi) of
        None \<Rightarrow> None
      | Some c \<Rightarrow> Some (fi, analyzeContent e c fi))"

subsection \<open>Example inputs\<close>

text \<open>
  An upload directory with two files: \<^verbatim>\<open>bad.json\<close> holds the single character
  \<^verbatim>\<open>{\<close>, which no JSON parser accepts, and \<^verbatim>\<open>good.csv\<close> holds a header line and one
  data row. A third file, \<^verbatim>\<open>gone.txt\<close>, is no longer there when it is read. The
  parser of the example accepts the document \<^verbatim>\<open>[]\<close> and rejects every other text it
  is asked about here.
\<close>

definition exampleEnv :: env where
  "exampleEnv =
     \<lparr>readFile = (\<lambda>p. if p = ''/uploads/bad.json'' then Some ''{''
                      else if p = ''/uploads/good.csv''
                        then Some (''title,price'' @ [CHR 0x0A] @ ''Widget,9.99'')
                      else None),
      JSON_parse = (\<lambda>s. if s = ''[]'' then Some (JArray []) else None),
      now = ''2024-01-15T10:00:00.000Z''\<rparr>"

definition goneFile :: fileInfo where
  "goneFile =
     \<lparr>path = ''/uploads/gone.txt'', originalName = ''gone.txt'', mimeType = ''text/plain'',
      size_bytes = 12, extension = ''.txt''\<rparr>"

definition badJsonFile :: fileInfo where
  "badJsonFile =
     \<lparr>path = ''/uploads/bad.json'', originalName = ''bad.json'',
      mimeType = ''application/json'', size_bytes = 1, extension = ''.json''\<rparr>"

definition goodCsvFile :: fileInfo where
  "goodCsvFile =
     \<lparr>path = ''/uploads/good.csv'', originalName = ''good.csv'', mimeType = ''text/csv'',
      size_bytes = 23, extension = ''.csv''\<rparr>"

definition exampleConfig :: config where
  "exampleConfig =
     \<lparr>websiteType = Some ''ecommerce'', projectName = Some ''Demo Shop'',
      databaseType = ''mysql'', tablePrefix = ''shop_'', includeMetadata = False,
      includeImages = False\<rparr>"

text \<open>
  Two generators after \<open>generateStructure\<close> on the example configuration with the
  custom template, one for the PostgreSQL renderer and one for the document-store
  renderer. Each holds the one table \<^verbatim>\<open>shop_content\<close>.
\<close>

definition examplePostgresGenerator :: SchemaGenerator where
  "examplePostgresGenerator =
     generateStructure
       (SchemaGenerator_constructor
          (exampleConfig\<lparr>websiteType := Some ''custom'', databaseType := ''postgresql''\<rparr>))
       (analyzeFiles exampleEnv [])"

definition exampleMongoGenerator :: SchemaGenerator where
  "exampleMongoGenerator =
     generateStructure
       (SchemaGenerator_constructor
          (exampleConfig\<lparr>websiteType := Some ''custom'', databaseType := ''mongodb''\<rparr>))
       (analyzeFiles exampleEnv [])"

section \<open>Properties of the field-name sanitizer\<close>

lemma strip_prefix_decomp:
  "rev (dropWhile P (rev s)) @ rev (takeWhile P (rev s)) = s"
proof -
  have "rev (takeWhile P (rev s) @ dropWhile P (rev s)) = s" by simp
  then show ?thesis by (simp only: rev_append)
qed

lemma replaceNonIdent_ident: "list_all isIdentChar (replaceNonIdent s)"
  by (induction s) (auto simp: replaceNonIdent_def isIdentChar_def)

lemma starts_dropWhile: "\<not> startsWithUnderscore (dropWhile (\<lambda>c. c = CHR ''_'') s)"
  by (induction s) (auto simp: startsWithUnderscore_def)

lemma starts_prefix:
  "\<not> startsWithUnderscore (xs @ ys) \<Longrightarrow> \<not> startsWithUnderscore xs"
  by (cases xs) (auto simp: startsWithUnderscore_def)

lemma stripUnderscores_starts: "\<not> startsWithUnderscore (stripUnderscores s)"
proof -
  let ?P = "\<lambda>c. c = CHR ''_''"
  let ?D = "dropWhile ?P s"
  have "\<not> startsWithUnderscore (rev (dropWhile ?P (rev ?D)) @ rev (takeWhile ?P (rev ?D)))"
    by (simp only: strip_prefix_decomp starts_dropWhile not_False_eq_True)
  then show ?thesis
    unfolding stripUnderscores_def by (rule starts_prefix)
qed

lemma stripUnderscores_ends: "\<not> endsWithUnderscore (stripUnderscores s)"
  by (simp add: endsWithUnderscore_def stripUnderscores_def starts_dropWhile)

lemma list_all_dropWhile: "list_all Q s \<Longrightarrow> list_all Q (dropWhile P s)"
  by (induction s) auto

lemma stripUnderscores_ident:
  "list_all isIdentChar s \<Longrightarrow> list_all isIdentChar (stripUnderscores s)"
  by (simp add: stripUnderscores_def list_all_dropWhile)

lemma collapse_ident: "list_all Q s \<Longrightarrow> list_all Q (collapseUnderscores s)"
  by (induction s rule: collapseUnderscores.induct) auto

lemma collapse_starts:
  "startsWithUnderscore (collapseUnderscores s) = startsWithUnderscore s"
  by (induction s rule: collapseUnderscores.induct) (auto simp: startsWithUnderscore_def)

lemma collapse_Nil: "(collapseUnderscores s = []) = (s = [])"
  by (induction s rule: collapseUnderscores.induct) auto

lemma collapse_last: "s \<noteq> [] \<Longrightarrow> last (collapseUnderscores s) = last s"
  by (induction s rule: collapseUnderscores.induct) (auto simp: collapse_Nil)

lemma ends_last: "endsWithUnderscore s = (s \<noteq> [] \<and> last s = CHR ''_'')"
  by (cases s rule: rev_cases) (auto simp: endsWithUnderscore_def startsWithUnderscore_def)

lemma collapse_ends: "endsWithUnderscore (collapseUnderscores s) = endsWithUnderscore s"
  by (cases "s = []") (auto simp: ends_last collapse_Nil collapse_last)

lemma collapse_no_double: "\<not> hasDoubleUnderscore (collapseUnderscores s)"
proof (induction s rule: collapseUnderscores.induct)
  case (3 c d cs)
  show ?case
  proof (cases "c = CHR ''_'' \<and> d = CHR ''_''")
    case True
    with 3 show ?thesis by simp
  next
    case False
    obtain e es where e: "collapseUnderscores (d # cs) = e # es"
      using collapse_Nil [of "d # cs"] by (cases "collapseUnderscores (d # cs)") auto
    have st: "startsWithUnderscore (e # es) = startsWithUnderscore (d # cs)"
      using collapse_starts [of "d # cs"] e by simp
    from False 3 e st show ?thesis
      by (auto simp: startsWithUnderscore_def)
  qed
qed simp_all

lemma toLowerChar_ident: "isIdentChar c \<Longrightarrow> toLowerChar c = c"
  by (auto simp: isIdentChar_def toLowerChar_def isLower_def isUpper_def isDigit_def code_def)

lemma toLowerCase_ident: "list_all isIdentChar s \<Longrightarrow> toLowerCase s = s"
  by (induction s) (auto simp: toLowerCase_def toLowerChar_ident)

lemma replaceNonIdent_id: "list_all isIdentChar s \<Longrightarrow> replaceNonIdent s = s"
  by (induction s) (auto simp: replaceNonIdent_def)

lemma dropWhile_not_starts:
  "\<not> startsWithUnderscore s \<Longrightarrow> dropWhile (\<lambda>c. c = CHR ''_'') s = s"
  by (cases s) (auto simp: startsWithUnderscore_def)

lemma stripUnderscores_id:
  "\<not> startsWithUnderscore s \<Longrightarrow> \<not> endsWithUnderscore s \<Longrightarrow> stripUnderscores s = s"
  by (simp add: stripUnderscores_def endsWithUnderscore_def dropWhile_not_starts)

lemma collapse_id: "\<not> hasDoubleUnderscore s \<Longrightarrow> collapseUnderscores s = s"
  by (induction s rule: collapseUnderscores.induct) auto

lemma sanitize_sanitized: "isSanitized (sanitizeFieldName x)"
  unfolding isSanitized_def sanitizeFieldName_def
  by (simp add: collapse_ident stripUnderscores_ident replaceNonIdent_ident
      collapse_starts collapse_ends stripUnderscores_starts stripUnderscores_ends
      collapse_no_double)

lemma sanitize_fixes_sanitized: "isSanitized y \<Longrightarrow> sanitizeFieldName y = y"
  unfolding isSanitized_def sanitizeFieldName_def
  by (simp add: toLowerCase_ident replaceNonIdent_id stripUnderscores_id collapse_id)

text \<open>
  Claim C5. For every input string \<open>x\<close>, \<open>sanitizeFieldName x\<close> consists of characters
  of \<^verbatim>\<open>[a-z0-9_]\<close> only, has no underscore at its start and none at its end, has no two
  underscores in a row, and sanitizing it again gives the same string.
\<close>

theorem sanitizeFieldName_shape_idempotent:
  "list_all isIdentChar (sanitizeFieldName x) \<and>
   \<not> startsWithUnderscore (sanitizeFieldName x) \<and>
   \<not> endsWithUnderscore (sanitizeFieldName x) \<and>
   \<not> hasDoubleUnderscore (sanitizeFieldName x) \<and>
   sanitizeFieldName (sanitizeFieldName x) = sanitizeFieldName x"
  using sanitize_sanitized [of x] sanitize_fixes_sanitized [of "sanitizeFieldName x"]
  by (simp add: isSanitized_def)

theorem sanitizeFieldName_shape_idempotent_witness:
  "sanitizeFieldName ''__First--Name! '' = ''first_name'' \<and>
   list_all isIdentChar (sanitizeFieldName ''__First--Name! '') \<and>
   \<not> startsWithUnderscore (sanitizeFieldName ''__First--Name! '') \<and>
   \<not> endsWithUnderscore (sanitizeFieldName ''__First--Name! '') \<and>
   \<not> hasDoubleUnderscore (sanitizeFieldName ''__First--Name! '') \<and>
   sanitizeFieldName (sanitizeFieldName ''__First--Name! '') =
     sanitizeFieldName ''__First--Name! ''"
proof -
  have "sanitizeFieldName ''__First--Name! '' = ''first_name''"
    by code_simp
  with sanitizeFieldName_shape_idempotent [of "''__First--Name! ''"] show ?thesis
    by simp
qed

section \<open>Properties of the type inferencer\<close>

lemma dropWhile_strip_end:
  "dropWhile P (rev (dropWhile P (rev (dropWhile P s)))) =
   rev (dropWhile P (rev (dropWhile P s)))"
proof (cases "rev (dropWhile P (rev (dropWhile P s)))")
  case Nil
  show ?thesis unfolding Nil by simp
next
  case (Cons t ts)
  have "dropWhile P s = (t # ts) @ rev (takeWhile P (rev (dropWhile P s)))"
    using strip_prefix_decomp [of P "dropWhile P s"] Cons by simp
  then have "dropWhile P s \<noteq> []" and "hd (dropWhile P s) = t"
    by (metis Nil_is_append_conv list.distinct(1), metis append_Cons list.sel(1))
  then have "\<not> P t" using hd_dropWhile [of P s] by auto
  with Cons show ?thesis by simp
qed

lemma trim_idem: "trim (trim s) = trim s"
proof -
  have "trimStart (trim s) = trim s"
    unfolding trim_def trimStart_def trimEnd_def by (rule dropWhile_strip_end)
  then show ?thesis
    unfolding trim_def [of "trim s"]
    by (simp add: trim_def trimEnd_def)
qed

lemma trim_whitespace: "list_all isWhiteSpace s \<Longrightarrow> trim s = []"
proof -
  assume "list_all isWhiteSpace s"
  then have "dropWhile isWhiteSpace s = []"
    by (simp add: dropWhile_eq_Nil_conv list_all_iff)
  then show ?thesis
    unfolding trim_def trimStart_def trimEnd_def by (simp only: rev.simps dropWhile.simps)
qed

lemma inferType_trim: "inferType (Some (trim s)) = inferType (Some s)"
  by (simp add: inferType_def trim_idem)

lemma isNaN_parseFloat_empty: "isNaN_parseFloat []"
  by (simp add: isNaN_parseFloat_def trimStart_def stripSign_def)

lemma inferType_empty: "trim s = [] \<Longrightarrow> inferType (Some s) = TString"
  by (simp add: inferType_def isNaN_parseFloat_empty isDate_def isDateTime_def)

text \<open>
  Claim C2, as stated: every string that, trimmed and compared without regard to case,
  is \<^verbatim>\<open>true\<close> or \<^verbatim>\<open>false\<close> is inferred as boolean, in particular \<^verbatim>\<open>TRUE\<close> and
  \<^verbatim>\<open>False\<close>. The comparison of \<open>inferType\<close> is exact, so both are inferred as string.
\<close>

theorem inferType_case_insensitive_counterexample:
  "toLowerCase (trim ''TRUE'') = ''true'' \<and> inferType (Some ''TRUE'') \<noteq> TBoolean \<and>
   inferType (Some ''TRUE'') = TString \<and>
   toLowerCase (trim ''False'') = ''false'' \<and> inferType (Some ''False'') \<noteq> TBoolean \<and>
   inferType (Some ''False'') = TString"
  by code_simp

text \<open>
  Claim C2, amended. \<open>inferType\<close> returns boolean exactly for the strings that, after
  white space is trimmed, are \<^verbatim>\<open>true\<close> or \<^verbatim>\<open>false\<close> in lower case.
\<close>

theorem inferType_boolean_iff:
  "(inferType (Some s) = TBoolean) = (trim s = ''true'' \<or> trim s = ''false'')"
  by (auto simp: inferType_def Let_def)

theorem inferType_boolean_iff_witness:
  "inferType (Some ''true'') = TBoolean \<and> inferType (Some ''  false '') = TBoolean \<and>
   trim ''  false '' = ''false''"
proof -
  have "trim ''true'' = ''true''" and "trim ''  false '' = ''false''"
    by code_simp+
  with inferType_boolean_iff [of "''true''"] inferType_boolean_iff [of "''  false ''"]
  show ?thesis by simp
qed

text \<open>
  Claim C9. A string of white space only trims to the empty string, and \<open>inferType\<close>
  classifies the empty string and every such string as string: the numeric test is
  applied to the trimmed value and fails on the empty string, because
  \<^verbatim>\<open>parseFloat\<close> of it is NaN. So \<open>inferType\<close> of the empty string is string and of
  \<^verbatim>\<open>" 42 "\<close> is integer.
\<close>

theorem inferType_empty_is_string:
  "(list_all isWhiteSpace s \<longrightarrow> trim s = [] \<and> inferType (Some s) = TString) \<and>
   inferType (Some (trim s)) = inferType (Some s) \<and>
   \<not> (\<not> isNaN_string [] \<and> \<not> isNaN_parseFloat []) \<and>
   inferType (Some []) = TString \<and>
   inferType (Some '' 42 '') = TInteger"
proof -
  have "inferType (Some '' 42 '') = TInteger" by code_simp
  moreover have "inferType (Some []) = TString"
    by (rule inferType_empty) (simp add: trim_def trimStart_def trimEnd_def)
  ultimately show ?thesis
    by (simp add: trim_whitespace inferType_empty inferType_trim isNaN_parseFloat_empty)
qed

theorem inferType_empty_is_string_witness:
  "list_all isWhiteSpace [CHR '' '', CHR 0x09, CHR 0x0A] \<and>
   trim [CHR '' '', CHR 0x09, CHR 0x0A] = [] \<and>
   inferType (Some [CHR '' '', CHR 0x09, CHR 0x0A]) = TString"
proof -
  have "list_all isWhiteSpace [CHR '' '', CHR 0x09, CHR 0x0A]"
    by (simp add: isWhiteSpace_def code_def)
  with inferType_empty_is_string [of "[CHR '' '', CHR 0x09, CHR 0x0A]"] show ?thesis
    by simp
qed

section \<open>Properties of the pipeline\<close>

lemma fold_push:
  "fold push ts this = this\<lparr>SchemaGenerator.tables := SchemaGenerator.tables this @ ts\<rparr>"
  by (induction ts arbitrary: this) (simp_all add: push_def)

lemma pushAll_eq:
  "pushAll ts this = this\<lparr>SchemaGenerator.tables := SchemaGenerator.tables this @ ts\<rparr>"
  by (simp add: pushAll_def fold_push)

lemmas template_defs =
  generateBlogStructure_def generatePortfolioStructure_def generateEcommerceStructure_def
  generateDocumentationStructure_def generateCorporateStructure_def
  generateCustomStructure_def addMetadataTables_def addMediaTables_def

lemma generateStructure_eq:
  "generateStructure this ad =
     this\<lparr>SchemaGenerator.tables := SchemaGenerator.tables this @ templateTables (config this)\<rparr>"
  unfolding templateTables_def generateStructure_def Let_def
  by (simp add: template_defs pushAll_eq tableName_def SchemaGenerator_constructor_def)

lemma generateSQL_cases:
  "(\<exists>s. generateSQL e this = Inr s) \<or> generateSQL e this = Inl TypeError"
  by (auto simp: generateSQL_def generateMongoDBSchema_def Let_def split: option.splits)

lemma foldl_fields:
  "foldl (\<lambda>sum t. sum + length (table_fields t)) n ts =
   n + sum_list (map (\<lambda>t. length (table_fields t)) ts)"
  by (induction ts arbitrary: n) simp_all

lemma generateFromFiles_eq:
  "generateFromFiles e this files =
     (let this' = this\<lparr>SchemaGenerator.tables :=
                        SchemaGenerator.tables this @ templateTables (config this)\<rparr>
      in case generateSQL e this' of
           Inl err \<Rightarrow> (Inl err, this')
         | Inr rendered \<Rightarrow>
             (Inr \<lparr>sql = rendered,
                   SchemaResult.tables = SchemaGenerator.tables this',
                   totalFields = countFields (SchemaGenerator.tables this'),
                   SchemaResult.metadata = SchemaGenerator.metadata this',
                   SchemaResult.relationships = SchemaGenerator.relationships this'\<rparr>,
              this'))"
  by (simp add: generateFromFiles_def generateStructure_eq Let_def foldl_fields countFields_def
      split: sum.splits)

lemma generateFromFiles_outcome:
  "(\<exists>r. fst (generateFromFiles e this files) = Inr r \<and>
        SchemaResult.tables r = SchemaGenerator.tables this @ templateTables (config this) \<and>
        totalFields r = countFields (SchemaGenerator.tables this @ templateTables (config this)) \<and>
        SchemaResult.metadata r = SchemaGenerator.metadata this \<and>
        SchemaResult.relationships r = SchemaGenerator.relationships this) \<or>
   fst (generateFromFiles e this files) = Inl TypeError"
  using generateSQL_cases [of e "this\<lparr>SchemaGenerator.tables :=
                        SchemaGenerator.tables this @ templateTables (config this)\<rparr>"]
  by (auto simp: generateFromFiles_eq Let_def)

lemma generateFromFiles_state:
  "snd (generateFromFiles e this files) =
     this\<lparr>SchemaGenerator.tables := SchemaGenerator.tables this @ templateTables (config this)\<rparr>"
  by (simp add: generateFromFiles_eq Let_def split: sum.splits)

lemma generateFromFiles_isl:
  "isl (fst (generateFromFiles e this files)) =
   (databaseType (config this) = ''mongodb'' \<and> projectName (config this) = None)"
  by (auto simp: generateFromFiles_eq Let_def generateSQL_def generateMongoDBSchema_def
      split: sum.splits option.splits)


lemmas example_defs =
  exampleEnv_def goneFile_def badJsonFile_def goodCsvFile_def exampleConfig_def






section \<open>Properties of the feature augmenters\<close>

lemma addMetadataTables_eq:
  "addMetadataTables this =
     this\<lparr>SchemaGenerator.tables := SchemaGenerator.tables this @ [metadataTableOf (config this)]\<rparr>"
  by (simp add: addMetadataTables_def metadataTableOf_def pushAll_eq tableName_def
      SchemaGenerator_constructor_def)

lemma addMediaTables_eq:
  "addMediaTables this =
     this\<lparr>SchemaGenerator.tables := SchemaGenerator.tables this @ [mediaTableOf (config this)]\<rparr>"
  by (simp add: addMediaTables_def mediaTableOf_def pushAll_eq tableName_def
      SchemaGenerator_constructor_def)

lemma metadataTableOf_shape:
  "table.name (metadataTableOf cfg) = tablePrefix cfg @ ''metadata'' \<and>
   map field.name (table_fields (metadataTableOf cfg)) =
     [''id'', ''entity_type'', ''entity_id'', ''meta_key'', ''meta_value'', ''created_at'']"
  by (simp add: addMetadataTables_def metadataTableOf_def pushAll_eq tableName_def
      SchemaGenerator_constructor_def fld_def)

lemma mediaTableOf_shape:
  "table.name (mediaTableOf cfg) = tablePrefix cfg @ ''media'' \<and>
   map field.name (table_fields (mediaTableOf cfg)) =
     [''id'', ''filename'', ''original_name'', ''mime_type'', ''size'', ''url'', ''alt_text'',
      ''width'', ''height'', ''uploaded_at'']"
  by (simp add: addMediaTables_def mediaTableOf_def pushAll_eq tableName_def
      SchemaGenerator_constructor_def fld_def)

lemmas domain_defs =
  generateBlogStructure_def generatePortfolioStructure_def generateEcommerceStructure_def
  generateDocumentationStructure_def generateCorporateStructure_def
  generateCustomStructure_def

lemma generateStructure_flags:
  "SchemaGenerator.tables (generateStructure this ad) =
     SchemaGenerator.tables
       (generateStructure
          (this\<lparr>config := (config this)\<lparr>includeMetadata := False, includeImages := False\<rparr>\<rparr>) ad) @
     (if includeMetadata (config this) then [metadataTableOf (config this)] else []) @
     (if includeImages (config this) then [mediaTableOf (config this)] else [])"
  unfolding generateStructure_def Let_def
  by (simp add: domain_defs addMetadataTables_eq addMediaTables_eq pushAll_eq tableName_def)

text \<open>
  Claim C3, as stated: the table appended for \<^verbatim>\<open>includeMetadata\<close> has exactly the fields
  \<^verbatim>\<open>entity_type\<close>, \<^verbatim>\<open>entity_id\<close>, \<^verbatim>\<open>meta_key\<close>, \<^verbatim>\<open>meta_value\<close>, \<^verbatim>\<open>created_at\<close>, and
  the one for \<^verbatim>\<open>includeImages\<close> exactly \<^verbatim>\<open>filename\<close> to \<^verbatim>\<open>uploaded_at\<close>. Both tables
  also have the primary key \<^verbatim>\<open>id\<close> as their first field.
\<close>

theorem augmenters_field_set_counterexample:
  "map field.name
     (table_fields
        (last (SchemaGenerator.tables
           (generateStructure
              (SchemaGenerator_constructor
                 \<lparr>websiteType = Some ''blog'', projectName = Some ''demo'',
                  databaseType = ''mysql'', tablePrefix = ''app_'', includeMetadata = True,
                  includeImages = False\<rparr>)
              \<lparr>content = [], analyzedData.structure = [], commonFields = {},
               mediaFiles = []\<rparr>)))) =
     [''id'', ''entity_type'', ''entity_id'', ''meta_key'', ''meta_value'', ''created_at''] \<and>
   ''id'' \<notin> {''entity_type'', ''entity_id'', ''meta_key'', ''meta_value'', ''created_at''} \<and>
   map field.name
     (table_fields
        (last (SchemaGenerator.tables
           (generateStructure
              (SchemaGenerator_constructor
                 \<lparr>websiteType = Some ''blog'', projectName = Some ''demo'',
                  databaseType = ''mysql'', tablePrefix = ''app_'', includeMetadata = False,
                  includeImages = True\<rparr>)
              \<lparr>content = [], analyzedData.structure = [], commonFields = {},
               mediaFiles = []\<rparr>)))) =
     [''id'', ''filename'', ''original_name'', ''mime_type'', ''size'', ''url'', ''alt_text'',
      ''width'', ''height'', ''uploaded_at''] \<and>
   ''id'' \<notin> {''filename'', ''original_name'', ''mime_type'', ''size'', ''url'', ''alt_text'',
              ''width'', ''height'', ''uploaded_at''}"
  by code_simp

text \<open>
  Claim C3, amended. For every domain tag and every generator state, the tables after
  \<open>generateStructure\<close> are the tables of the same run with both flags off, followed by
  one metadata table if \<^verbatim>\<open>includeMetadata\<close> is set, followed by one media table if
  \<^verbatim>\<open>includeImages\<close> is set. The metadata table is named with the configured prefix and
  has exactly the fields \<^verbatim>\<open>id\<close>, \<^verbatim>\<open>entity_type\<close>, \<^verbatim>\<open>entity_id\<close>, \<^verbatim>\<open>meta_key\<close>,
  \<^verbatim>\<open>meta_value\<close>, \<^verbatim>\<open>created_at\<close>; the media table is named with the prefix and has
  exactly the fields \<^verbatim>\<open>id\<close>, \<^verbatim>\<open>filename\<close>, \<^verbatim>\<open>original_name\<close>, \<^verbatim>\<open>mime_type\<close>, \<^verbatim>\<open>size\<close>,
  \<^verbatim>\<open>url\<close>, \<^verbatim>\<open>alt_text\<close>, \<^verbatim>\<open>width\<close>, \<^verbatim>\<open>height\<close>, \<^verbatim>\<open>uploaded_at\<close>.
\<close>

theorem augmenters_append_one_table:
  "SchemaGenerator.tables (generateStructure this ad) =
     SchemaGenerator.tables
       (generateStructure
          (this\<lparr>config := (config this)\<lparr>includeMetadata := False, includeImages := False\<rparr>\<rparr>) ad) @
     (if includeMetadata (config this) then [metadataTableOf (config this)] else []) @
     (if includeImages (config this) then [mediaTableOf (config this)] else []) \<and>
   table.name (metadataTableOf (config this)) = tablePrefix (config this) @ ''metadata'' \<and>
   map field.name (table_fields (metadataTableOf (config this))) =
     [''id'', ''entity_type'', ''entity_id'', ''meta_key'', ''meta_value'', ''created_at''] \<and>
   table.name (mediaTableOf (config this)) = tablePrefix (config this) @ ''media'' \<and>
   map field.name (table_fields (mediaTableOf (config this))) =
     [''id'', ''filename'', ''original_name'', ''mime_type'', ''size'', ''url'', ''alt_text'',
      ''width'', ''height'', ''uploaded_at'']"
  using generateStructure_flags [of this ad] metadataTableOf_shape [of "config this"]
    mediaTableOf_shape [of "config this"]
  by (simp only: simp_thms)

theorem augmenters_append_one_table_witness:
  "map table.name
     (SchemaGenerator.tables
        (generateStructure
           (SchemaGenerator_constructor
              \<lparr>websiteType = Some ''portfolio'', projectName = Some ''demo'',
               databaseType = ''mysql'', tablePrefix = ''app_'', includeMetadata = True,
               includeImages = True\<rparr>)
           \<lparr>content = [], analyzedData.structure = [], commonFields = {}, mediaFiles = []\<rparr>)) =
     [''app_projects'', ''app_skills'', ''app_project_skills'', ''app_metadata'', ''app_media'']"
proof -
  let ?cfg = "\<lparr>websiteType = Some ''portfolio'', projectName = Some ''demo'',
               databaseType = ''mysql'', tablePrefix = ''app_'', includeMetadata = True,
               includeImages = True\<rparr>"
  let ?ad = "\<lparr>content = [], analyzedData.structure = [], commonFields = {}, mediaFiles = []\<rparr>"
  have base: "map table.name
     (SchemaGenerator.tables
        (generateStructure
           ((SchemaGenerator_constructor ?cfg)
              \<lparr>config := (config (SchemaGenerator_constructor ?cfg))
                          \<lparr>includeMetadata := False, includeImages := False\<rparr>\<rparr>) ?ad)) =
     [''app_projects'', ''app_skills'', ''app_project_skills'']"
    by code_simp
  have cfg: "config (SchemaGenerator_constructor ?cfg) = ?cfg"
    by (simp add: SchemaGenerator_constructor_def)
  show ?thesis
    using augmenters_append_one_table [of "SchemaGenerator_constructor ?cfg" ?ad] base
    by (simp add: cfg)
qed

section \<open>Properties of the file analysis\<close>

lemma analyzeContent_fields: "analysis_fields (analyzeContent e c fi) = []"
  by (simp add: analyzeContent_def Let_def)

lemma analyzeFile_eq:
  "analyzeFile e fi ad =
     (case analyzed e fi of
        None \<Rightarrow> ad
      | Some entry \<Rightarrow> ad\<lparr>content := content ad @ [entry]\<rparr>)"
  by (simp add: analyzeFile_def analyzed_def analyzeContent_fields keys_def Let_def
      split: option.splits)

lemma fold_analyzeFile:
  "fold (analyzeFile e) files ad =
     ad\<lparr>content := content ad @ List.map_filter (analyzed e) files\<rparr>"
proof (induction files arbitrary: ad)
  case Nil
  show ?case by simp
next
  case (Cons fi files)
  have "fold (analyzeFile e) (fi # files) ad = fold (analyzeFile e) files (analyzeFile e fi ad)"
    by simp
  also have "\<dots> = (analyzeFile e fi ad)
      \<lparr>content := content (analyzeFile e fi ad) @ List.map_filter (analyzed e) files\<rparr>"
    by (rule Cons)
  also have "\<dots> = ad\<lparr>content := content ad @ List.map_filter (analyzed e) (fi # files)\<rparr>"
    by (cases "analyzed e fi") (simp_all add: analyzeFile_eq)
  finally show ?case .
qed

lemma analyzeFiles_eq:
  "analyzeFiles e files =
     \<lparr>content = List.map_filter (analyzed e) files, analyzedData.structure = [],
      commonFields = {}, mediaFiles = []\<rparr>"
  by (simp add: analyzeFiles_def fold_analyzeFile)

lemma map_filter_analyzed_fst:
  "map fst (List.map_filter (analyzed e) files) =
   filter (\<lambda>fi. readFile e (path fi) \<noteq> None) files"
  by (induction files) (auto simp: analyzed_def split: option.splits)

lemma map_filter_analyzed_fields:
  "list_all (\<lambda>entry. analysis_fields (snd entry) = []) (List.map_filter (analyzed e) files)"
  by (induction files)
    (auto simp: analyzed_def analyzeContent_fields split: option.splits)

lemma analyzeFiles_unreadable:
  "readFile e (path fi) = None \<Longrightarrow>
   analyzeFiles e (before @ fi # after) = analyzeFiles e (before @ after)"
  by (simp add: analyzeFiles_eq List.map_filter_def analyzed_def)

lemma analyzeContent_unparsable:
  "extension fi = ''.json'' \<Longrightarrow> JSON_parse e c = None \<Longrightarrow>
   analyzeContent e c fi =
     \<lparr>analysis_fields = [], analysis_type = ''structured'', hasMetadata = False,
      analysis.structure = None\<rparr>"
  by (simp add: analyzeContent_def analyzeJSON_def Let_def)

lemma generateFromFiles_no_files:
  "generateFromFiles e this files = generateFromFiles e this []"
  by (simp only: generateFromFiles_eq)

text \<open>
  Claim C4, as stated: a file whose analysis fails, because it cannot be read or
  because its structured content cannot be parsed, is excluded from the aggregate.
  The file \<^verbatim>\<open>bad.json\<close> is read, is not parsable, and is in the aggregate all the
  same, with a \<^verbatim>\<open>null\<close> structure: \<open>analyzeJSON\<close> catches the parse error itself.
\<close>

theorem file_failure_counterexample:
  "readFile exampleEnv (path badJsonFile) = Some ''{'' \<and>
   JSON_parse exampleEnv ''{'' = None \<and>
   content (analyzeFiles exampleEnv [badJsonFile]) =
     [(badJsonFile,
       \<lparr>analysis_fields = [], analysis_type = ''structured'', hasMetadata = False,
        analysis.structure = None\<rparr>)] \<and>
   content (analyzeFiles exampleEnv [badJsonFile]) \<noteq> []"
  by code_simp

text \<open>
  Claim C4, amended. The aggregate holds exactly the files whose read succeeded, in
  the order of the input: a file that cannot be read is left out and the run goes on
  over the other files; a structured file that is read but cannot be parsed stays in
  the aggregate, with a \<^verbatim>\<open>null\<close> structure, between the entries of the files before
  and behind it. The outcome of \<open>generateFromFiles\<close> is the one of the run without any
  file: a complete result or the one fatal error, and the error occurs exactly when
  the document-store renderer is asked for without a project name, so no file
  failure makes the run fail.
\<close>

theorem file_failures_recovered:
  "map fst (content (analyzeFiles e files)) =
     filter (\<lambda>fi. readFile e (path fi) \<noteq> None) files \<and>
   (readFile e (path fi) = None \<longrightarrow>
      analyzeFiles e (before @ fi # after) = analyzeFiles e (before @ after)) \<and>
   (readFile e (path fi) = Some c \<and> extension fi = ''.json'' \<and> JSON_parse e c = None \<longrightarrow>
      content (analyzeFiles e (before @ fi # after)) =
        content (analyzeFiles e before) @
        [(fi, \<lparr>analysis_fields = [], analysis_type = ''structured'', hasMetadata = False,
                analysis.structure = None\<rparr>)] @
        content (analyzeFiles e after)) \<and>
   generateFromFiles e this files = generateFromFiles e this [] \<and>
   ((\<exists>r. fst (generateFromFiles e this files) = Inr r) \<or>
    fst (generateFromFiles e this files) = Inl TypeError) \<and>
   isl (fst (generateFromFiles e this files)) =
     (databaseType (config this) = ''mongodb'' \<and> projectName (config this) = None)"
proof -
  have a: "map fst (content (analyzeFiles e files)) =
     filter (\<lambda>fi. readFile e (path fi) \<noteq> None) files"
    by (simp add: analyzeFiles_eq map_filter_analyzed_fst)
  have b: "readFile e (path fi) = None \<longrightarrow>
      analyzeFiles e (before @ fi # after) = analyzeFiles e (before @ after)"
    by (simp add: analyzeFiles_unreadable)
  have c: "readFile e (path fi) = Some c \<and> extension fi = ''.json'' \<and> JSON_parse e c = None \<longrightarrow>
      content (analyzeFiles e (before @ fi # after)) =
        content (analyzeFiles e before) @
        [(fi, \<lparr>analysis_fields = [], analysis_type = ''structured'', hasMetadata = False,
                analysis.structure = None\<rparr>)] @
        content (analyzeFiles e after)"
    by (simp add: analyzeFiles_eq List.map_filter_def analyzed_def analyzeContent_unparsable)
  have d: "generateFromFiles e this files = generateFromFiles e this []"
    by (rule generateFromFiles_no_files)
  have f: "(\<exists>r. fst (generateFromFiles e this files) = Inr r) \<or>
    fst (generateFromFiles e this files) = Inl TypeError"
    using generateFromFiles_outcome [of e this files] by blast
  show ?thesis
    using a b c d f generateFromFiles_isl [of e this files] by (simp only: simp_thms)
qed

theorem file_failures_recovered_witness:
  "map fst (content (analyzeFiles exampleEnv [goneFile, badJsonFile, goodCsvFile])) =
     [badJsonFile, goodCsvFile] \<and>
   readFile exampleEnv (path goneFile) = None \<and>
   analyzeFiles exampleEnv [goneFile, badJsonFile, goodCsvFile] =
     analyzeFiles exampleEnv [badJsonFile, goodCsvFile] \<and>
   readFile exampleEnv (path badJsonFile) = Some ''{'' \<and>
   extension badJsonFile = ''.json'' \<and> JSON_parse exampleEnv ''{'' = None \<and>
   content (analyzeFiles exampleEnv [goneFile, badJsonFile, goodCsvFile]) =
     content (analyzeFiles exampleEnv [goneFile]) @
     [(badJsonFile, \<lparr>analysis_fields = [], analysis_type = ''structured'',
                     hasMetadata = False, analysis.structure = None\<rparr>)] @
     content (analyzeFiles exampleEnv [goodCsvFile]) \<and>
   \<not> isl (fst (generateFromFiles exampleEnv (SchemaGenerator_constructor exampleConfig)
                 [goneFile, badJsonFile, goodCsvFile]))"
proof -
  let ?all = "[goneFile, badJsonFile, goodCsvFile]"
  let ?g = "SchemaGenerator_constructor exampleConfig"
  have gone: "readFile exampleEnv (path goneFile) = None"
    by (simp add: example_defs)
  have bad: "readFile exampleEnv (path badJsonFile) = Some ''{'' \<and>
             extension badJsonFile = ''.json'' \<and> JSON_parse exampleEnv ''{'' = None"
    by (simp add: example_defs)
  have good: "readFile exampleEnv (path goodCsvFile) \<noteq> None"
    by (simp add: example_defs)
  have db: "\<not> (databaseType (config ?g) = ''mongodb'' \<and> projectName (config ?g) = None)"
    by (simp add: SchemaGenerator_constructor_def exampleConfig_def)
  note t1 = file_failures_recovered
    [of exampleEnv ?all goneFile "[]" "[badJsonFile, goodCsvFile]" "''{''" ?g]
  note t2 = file_failures_recovered
    [of exampleEnv ?all badJsonFile "[goneFile]" "[goodCsvFile]" "''{''" ?g]
  from t1 have "map fst (content (analyzeFiles exampleEnv ?all)) =
      filter (\<lambda>fi. readFile exampleEnv (path fi) \<noteq> None) ?all"
    by (rule conjunct1)
  with gone bad good have c1: "map fst (content (analyzeFiles exampleEnv ?all)) =
      [badJsonFile, goodCsvFile]"
    by simp
  from t1 gone have c2: "analyzeFiles exampleEnv ?all =
      analyzeFiles exampleEnv [badJsonFile, goodCsvFile]"
    by simp
  from t2 bad have c3: "content (analyzeFiles exampleEnv ?all) =
     content (analyzeFiles exampleEnv [goneFile]) @
     [(badJsonFile, \<lparr>analysis_fields = [], analysis_type = ''structured'',
                     hasMetadata = False, analysis.structure = None\<rparr>)] @
     content (analyzeFiles exampleEnv [goodCsvFile])"
    by simp
  from t1 db have c4: "\<not> isl (fst (generateFromFiles exampleEnv ?g ?all))"
    by blast
  from c1 gone c2 bad c3 c4 show ?thesis
    by (intro conjI) blast+
qed

text \<open>
  Claim C10. For every file list and configuration the aggregated \<open>commonFields\<close> set
  is empty, because every analysis in the aggregate has the empty \<^verbatim>\<open>fields\<close> object
  that \<open>analyzeContent\<close> starts with; the metadata of a new generator is the empty
  object, the result of a run on it returns that empty object, and no run changes
  the metadata of its generator.
\<close>

theorem analysis_never_reaches_caller:
  "commonFields (analyzeFiles e files) = {} \<and>
   list_all (\<lambda>entry. analysis_fields (snd entry) = []) (content (analyzeFiles e files)) \<and>
   SchemaGenerator.metadata (SchemaGenerator_constructor cfg) = [] \<and>
   ((\<exists>r. fst (generateFromFiles e (SchemaGenerator_constructor cfg) files) = Inr r \<and>
         SchemaResult.metadata r = []) \<or>
    fst (generateFromFiles e (SchemaGenerator_constructor cfg) files) = Inl TypeError) \<and>
   SchemaGenerator.metadata (snd (generateFromFiles e this files)) =
     SchemaGenerator.metadata this"
proof -
  have m: "SchemaGenerator.metadata (SchemaGenerator_constructor cfg) = []"
    by (simp add: SchemaGenerator_constructor_def)
  have "(\<exists>r. fst (generateFromFiles e (SchemaGenerator_constructor cfg) files) = Inr r \<and>
         SchemaResult.metadata r = []) \<or>
    fst (generateFromFiles e (SchemaGenerator_constructor cfg) files) = Inl TypeError"
    using generateFromFiles_outcome [of e "SchemaGenerator_constructor cfg" files] m
    by auto
  then show ?thesis
    by (simp add: analyzeFiles_eq map_filter_analyzed_fields m generateFromFiles_state)
qed

theorem analysis_never_reaches_caller_witness:
  "commonFields (analyzeFiles exampleEnv [goodCsvFile]) = {} \<and>
   map (\<lambda>entry. analysis.structure (snd entry)) (content (analyzeFiles exampleEnv [goodCsvFile])) =
     [Some [(''title'', Plain TString False), (''price'', Plain TDecimal False)]] \<and>
   map_sum id SchemaResult.metadata
     (fst (generateFromFiles exampleEnv (SchemaGenerator_constructor exampleConfig)
        [goodCsvFile])) = Inr []"
proof -
  let ?g = "SchemaGenerator_constructor exampleConfig"
  note t = analysis_never_reaches_caller [of exampleEnv "[goodCsvFile]" exampleConfig ?g]
  have s: "map (\<lambda>entry. analysis.structure (snd entry))
             (content (analyzeFiles exampleEnv [goodCsvFile])) =
     [Some [(''title'', Plain TString False), (''price'', Plain TDecimal False)]]"
    by code_simp
  have ni: "\<not> isl (fst (generateFromFiles exampleEnv ?g [goodCsvFile]))"
    by (simp add: generateFromFiles_isl SchemaGenerator_constructor_def exampleConfig_def)
  from t have cf: "commonFields (analyzeFiles exampleEnv [goodCsvFile]) = {}"
    by (rule conjunct1)
  from t have "(\<exists>r. fst (generateFromFiles exampleEnv ?g [goodCsvFile]) = Inr r \<and>
         SchemaResult.metadata r = []) \<or>
    fst (generateFromFiles exampleEnv ?g [goodCsvFile]) = Inl TypeError"
    by blast
  with ni obtain r where "fst (generateFromFiles exampleEnv ?g [goodCsvFile]) = Inr r"
    and "SchemaResult.metadata r = []"
    by auto
  then have "map_sum id SchemaResult.metadata
     (fst (generateFromFiles exampleEnv ?g [goodCsvFile])) = Inr []"
    by simp
  with cf s show ?thesis by (intro conjI)
qed

section \<open>Properties of the dialect renderers\<close>

lemma fst_insertIndexKey: "fst ` set (insertIndexKey k v obj) = insert k (fst ` set obj)"
proof (induction obj)
  case Nil
  show ?case by simp
next
  case (Cons a obj)
  obtain k' v' where a: "a = (k', v')" by (cases a)
  show ?case
    by (cases "isArrayIndex k' \<and> digitsToInt k' < digitsToInt k")
      (auto simp: a Cons)
qed

lemma keys_insertIndexKey: "set (keys (insertIndexKey k v obj)) = insert k (set (keys obj))"
  by (simp add: keys_def fst_insertIndexKey)

lemma keys_overwrite:
  "keys (map (\<lambda>kv. if fst kv = k then (k, v) else kv) obj) = keys obj"
  by (induction obj) (simp_all add: keys_def)

lemma keys_setProperty:
  "set (keys (setProperty k v obj)) =
     (if k = ''__proto__'' then set (keys obj) else insert k (set (keys obj)))"
proof (cases "k = ''__proto__''")
  case True
  then show ?thesis by (simp add: setProperty_def)
next
  case False
  note proto = this
  show ?thesis
  proof (cases "k \<in> set (map fst obj)")
    case True
    then have "setProperty k v obj = map (\<lambda>kv. if fst kv = k then (k, v) else kv) obj"
      using proto by (simp add: setProperty_def)
    moreover from True have "insert k (set (keys obj)) = set (keys obj)"
      by (auto simp: keys_def)
    ultimately show ?thesis using proto by (simp add: keys_overwrite)
  next
    case False
    show ?thesis
    proof (cases "isArrayIndex k")
      case True
      with False proto have "setProperty k v obj = insertIndexKey k v obj"
        by (simp add: setProperty_def)
      then show ?thesis using proto by (simp add: keys_insertIndexKey)
    next
      case notIndex: False
      with False proto have "setProperty k v obj = obj @ [(k, v)]"
        by (simp add: setProperty_def)
      then show ?thesis using proto by (simp add: keys_def)
    qed
  qed
qed

lemma keys_fold_properties:
  "set (keys (fold (\<lambda>f properties.
             if autoIncrement f then properties
             else setProperty (field.name f)
                    (VObj [(''bsonType'', VStr (mapTypeToMongo (field_type f))),
                           (''description'', VStr (field.name f @ '' field''))])
                    properties) fs acc)) =
   set (keys acc) \<union>
   {field.name f | f. f \<in> set fs \<and> \<not> autoIncrement f \<and> field.name f \<noteq> ''__proto__''}"
proof (induction fs arbitrary: acc)
  case Nil
  show ?case by simp
next
  case (Cons f fs)
  show ?case
    by (simp add: Cons keys_setProperty) blast
qed

lemma keys_generateMongoProperties:
  "set (keys (generateMongoProperties fs)) =
   {field.name f | f. f \<in> set fs \<and> \<not> autoIncrement f \<and> field.name f \<noteq> ''__proto__''}"
proof -
  have "set (keys ([] :: (string \<times> jsonv) list)) = {}" by (simp add: keys_def)
  then show ?thesis
    unfolding generateMongoProperties_def by (simp only: keys_fold_properties Un_empty_left)
qed

lemma distinct_names_eq:
  "distinct (map field.name fs) \<Longrightarrow> f \<in> set fs \<Longrightarrow> g \<in> set fs \<Longrightarrow>
   field.name f = field.name g \<Longrightarrow> f = g"
  by (metis distinct_map inj_onD)

lemma fold_append_acc:
  "fold (\<lambda>t acc. acc @ g t) ts init = init @ concat (map g ts)"
  by (induction ts arbitrary: init) simp_all

lemma generatePostgreSQLSchema_eq:
  "generatePostgreSQLSchema e this =
     ''-- Generated PostgreSQL Schema for '' @ showOptional (projectName (config this)) @
     newline @ ''-- Generated at: '' @ now e @ newline @ newline @
     concat (map postgresTable (SchemaGenerator.tables this))"
  by (simp add: generatePostgreSQLSchema_def Let_def fold_append_acc)

lemma generateSQL_postgresql:
  "databaseType (config this) = ''postgresql'' \<Longrightarrow>
   generateSQL e this = Inr (generatePostgreSQLSchema e this)"
  by (simp add: generateSQL_def Let_def)

lemma generateSQL_mongodb:
  "databaseType (config this) = ''mongodb'' \<Longrightarrow>
   generateSQL e this = generateMongoDBSchema this"
  by (simp add: generateSQL_def Let_def)

lemma generateFromFiles_postgresql:
  assumes "databaseType (config this) = ''postgresql''"
  shows "\<exists>r. fst (generateFromFiles e this files) = Inr r \<and>
             sql r = generatePostgreSQLSchema e (snd (generateFromFiles e this files))"
proof -
  let ?this' = "this\<lparr>SchemaGenerator.tables :=
                        SchemaGenerator.tables this @ templateTables (config this)\<rparr>"
  have "generateSQL e ?this' = Inr (generatePostgreSQLSchema e ?this')"
    using assms by (simp add: generateSQL_postgresql)
  then show ?thesis
    by (simp add: generateFromFiles_eq Let_def)
qed

lemma generateFromFiles_mongodb:
  assumes "databaseType (config this) = ''mongodb''"
    and "projectName (config this) = Some p"
  shows "\<exists>r. fst (generateFromFiles e this files) = Inr r \<and>
             Inr (sql r) = generateMongoDBSchema (snd (generateFromFiles e this files))"
proof -
  let ?this' = "this\<lparr>SchemaGenerator.tables :=
                        SchemaGenerator.tables this @ templateTables (config this)\<rparr>"
  have "generateSQL e ?this' = generateMongoDBSchema ?this'"
    using assms by (simp add: generateSQL_mongodb)
  moreover have "\<exists>s. generateMongoDBSchema ?this' = Inr s"
    using assms by (simp add: generateMongoDBSchema_def)
  ultimately show ?thesis
    by (auto simp: generateFromFiles_eq Let_def)
qed

lemma mongo_no_auto:
  assumes "distinct (map field.name (table_fields t))"
  shows "\<forall>f \<in> set (table_fields t). autoIncrement f \<longrightarrow>
            field.name f \<notin> set (mongoRequired (table_fields t)) \<and>
            field.name f \<notin> set (keys (generateMongoProperties (table_fields t)))"
proof (intro ballI impI conjI)
  fix f assume f: "f \<in> set (table_fields t)" "autoIncrement f"
  show "field.name f \<notin> set (mongoRequired (table_fields t))"
  proof
    assume "field.name f \<in> set (mongoRequired (table_fields t))"
    then obtain g where "g \<in> set (table_fields t)" "\<not> autoIncrement g"
      "field.name g = field.name f"
      by (auto simp: mongoRequired_def)
    with f assms show False using distinct_names_eq by metis
  qed
  show "field.name f \<notin> set (keys (generateMongoProperties (table_fields t)))"
  proof
    assume "field.name f \<in> set (keys (generateMongoProperties (table_fields t)))"
    then obtain g where "g \<in> set (table_fields t)" "\<not> autoIncrement g"
      "field.name g = field.name f"
      by (auto simp: keys_generateMongoProperties)
    with f assms show False using distinct_names_eq by metis
  qed
qed

text \<open>
  Claim C7. The document-store renderer, \<open>generateMongoDBSchema\<close>, which \<open>generateSQL\<close>
  and \<open>generateFromFiles\<close> run for the dialect \<^verbatim>\<open>mongodb\<close>, emits the serialized object
  whose \<^verbatim>\<open>collections\<close> are \<open>mongoCollection\<close> of the generator's tables, in order. For
  every table whose field names are distinct, as the data model requires, that
  collection has a validator whose \<^verbatim>\<open>required\<close> list is the list of the names of the
  fields that are required and not auto-increment, and whose \<^verbatim>\<open>properties\<close> object has
  a key for the fields that are not auto-increment only; the name of an
  auto-increment field is neither in the list nor a key of the object.
\<close>

theorem mongo_validator_excludes_autoIncrement:
  assumes "distinct (map field.name (table_fields t))"
  shows "mongoCollection t =
           VObj [(''name'', VStr (table.name t)),
                 (''validator'',
                  VObj [(''$jsonSchema'',
                         VObj [(''bsonType'', VStr ''object''),
                               (''required'',
                                VArr (map VStr
                                  (map field.name
                                     (filter (\<lambda>f. required f \<and> \<not> autoIncrement f)
                                        (table_fields t))))),
                               (''properties'',
                                VObj (generateMongoProperties (table_fields t)))])])] \<and>
         set (keys (generateMongoProperties (table_fields t))) =
           {field.name f | f. f \<in> set (table_fields t) \<and> \<not> autoIncrement f \<and>
                              field.name f \<noteq> ''__proto__''} \<and>
         (\<forall>f \<in> set (table_fields t). autoIncrement f \<longrightarrow>
            field.name f \<notin> set (mongoRequired (table_fields t)) \<and>
            field.name f \<notin> set (keys (generateMongoProperties (table_fields t)))) \<and>
         (projectName (config this) = Some p \<longrightarrow>
            generateMongoDBSchema this =
              Inr (JSON_stringify
                     (VObj [(''database'', VStr (replaceWhiteSpaceRuns (toLowerCase p))),
                            (''collections'',
                             VArr (map mongoCollection (SchemaGenerator.tables this)))]))) \<and>
         (databaseType (config this) = ''mongodb'' \<longrightarrow>
            generateSQL e this = generateMongoDBSchema this) \<and>
         (databaseType (config this) = ''mongodb'' \<and> projectName (config this) = Some p \<longrightarrow>
            (\<exists>r. fst (generateFromFiles e this files) = Inr r \<and>
                 sql r =
                   JSON_stringify
                     (VObj [(''database'', VStr (replaceWhiteSpaceRuns (toLowerCase p))),
                            (''collections'',
                             VArr (map mongoCollection
                                     (SchemaGenerator.tables this @
                                      templateTables (config this))))])))"
proof -
  note a = mongo_no_auto [OF assms]
  have b: "projectName (config this) = Some p \<longrightarrow>
            generateMongoDBSchema this =
              Inr (JSON_stringify
                     (VObj [(''database'', VStr (replaceWhiteSpaceRuns (toLowerCase p))),
                            (''collections'',
                             VArr (map mongoCollection (SchemaGenerator.tables this)))]))"
    by (simp add: generateMongoDBSchema_def)
  have c: "databaseType (config this) = ''mongodb'' \<longrightarrow>
            generateSQL e this = generateMongoDBSchema this"
    by (simp add: generateSQL_mongodb)
  have d: "databaseType (config this) = ''mongodb'' \<and> projectName (config this) = Some p \<longrightarrow>
            (\<exists>r. fst (generateFromFiles e this files) = Inr r \<and>
                 sql r =
                   JSON_stringify
                     (VObj [(''database'', VStr (replaceWhiteSpaceRuns (toLowerCase p))),
                            (''collections'',
                             VArr (map mongoCollection
                                     (SchemaGenerator.tables this @
                                      templateTables (config this))))]))"
  proof
    assume h: "databaseType (config this) = ''mongodb'' \<and> projectName (config this) = Some p"
    then obtain r where r: "fst (generateFromFiles e this files) = Inr r"
      "Inr (sql r) = generateMongoDBSchema (snd (generateFromFiles e this files))"
      using generateFromFiles_mongodb [of this p e files] by blast
    from h r(2) have "sql r =
                   JSON_stringify
                     (VObj [(''database'', VStr (replaceWhiteSpaceRuns (toLowerCase p))),
                            (''collections'',
                             VArr (map mongoCollection
                                     (SchemaGenerator.tables this @
                                      templateTables (config this))))])"
      by (simp add: generateFromFiles_state generateMongoDBSchema_def)
    with r(1) show "\<exists>r. fst (generateFromFiles e this files) = Inr r \<and>
                 sql r =
                   JSON_stringify
                     (VObj [(''database'', VStr (replaceWhiteSpaceRuns (toLowerCase p))),
                            (''collections'',
                             VArr (map mongoCollection
                                     (SchemaGenerator.tables this @
                                      templateTables (config this))))])"
      by blast
  qed
  from a b c d show ?thesis
    by (simp add: mongoCollection_def mongoRequired_def keys_generateMongoProperties)
qed

theorem mongo_validator_excludes_autoIncrement_witness:
  "distinct (map field.name
     (table_fields (hd (SchemaGenerator.tables exampleMongoGenerator)))) \<and>
   databaseType (config exampleMongoGenerator) = ''mongodb'' \<and>
   projectName (config exampleMongoGenerator) = Some ''Demo Shop'' \<and>
   generateSQL exampleEnv exampleMongoGenerator =
     Inr (JSON_stringify
            (VObj [(''database'', VStr ''demo_shop''),
                   (''collections'',
                    VArr [mongoCollection (hd (SchemaGenerator.tables exampleMongoGenerator))])])) \<and>
   mongoCollection (hd (SchemaGenerator.tables exampleMongoGenerator)) =
     VObj [(''name'', VStr ''shop_content''),
           (''validator'',
            VObj [(''$jsonSchema'',
                   VObj [(''bsonType'', VStr ''object''),
                         (''required'',
                          VArr [VStr ''title'', VStr ''slug'', VStr ''body'', VStr ''type'',
                                VStr ''status'', VStr ''created_at'', VStr ''updated_at'']),
                         (''properties'',
                          VObj (generateMongoProperties
                                  (table_fields
                                     (hd (SchemaGenerator.tables exampleMongoGenerator)))))])])] \<and>
   keys (generateMongoProperties
           (table_fields (hd (SchemaGenerator.tables exampleMongoGenerator)))) =
     [''title'', ''slug'', ''body'', ''type'', ''status'', ''created_at'', ''updated_at''] \<and>
   autoIncrement (hd (table_fields (hd (SchemaGenerator.tables exampleMongoGenerator)))) \<and>
   field.name (hd (table_fields (hd (SchemaGenerator.tables exampleMongoGenerator)))) = ''id'' \<and>
   ''id'' \<notin> set (mongoRequired
                   (table_fields (hd (SchemaGenerator.tables exampleMongoGenerator)))) \<and>
   ''id'' \<notin> set (keys (generateMongoProperties
                   (table_fields (hd (SchemaGenerator.tables exampleMongoGenerator)))))"
proof -
  let ?G = "exampleMongoGenerator"
  let ?t = "hd (SchemaGenerator.tables ?G)"
  let ?fs = "table_fields ?t"
  have d: "distinct (map field.name ?fs)" by code_simp
  have db: "databaseType (config ?G) = ''mongodb''" by code_simp
  have pn: "projectName (config ?G) = Some ''Demo Shop''" by code_simp
  have ts: "SchemaGenerator.tables ?G = [?t]" by code_simp
  have low: "replaceWhiteSpaceRuns (toLowerCase ''Demo Shop'') = ''demo_shop''" by code_simp
  have nm: "table.name ?t = ''shop_content''" by code_simp
  have rq: "map field.name (filter (\<lambda>f. required f \<and> \<not> autoIncrement f) ?fs) =
     [''title'', ''slug'', ''body'', ''type'', ''status'', ''created_at'', ''updated_at'']"
    by code_simp
  have k: "keys (generateMongoProperties ?fs) =
     [''title'', ''slug'', ''body'', ''type'', ''status'', ''created_at'', ''updated_at'']"
    by code_simp
  have a: "autoIncrement (hd ?fs)" by code_simp
  have n: "field.name (hd ?fs) = ''id''" by code_simp
  have "?fs \<noteq> []" by code_simp
  then have m: "hd ?fs \<in> set ?fs" by simp
  note th = mongo_validator_excludes_autoIncrement
    [OF d, where this = ?G and p = "''Demo Shop''" and e = exampleEnv and files = "[]"]
  from th have coll: "mongoCollection ?t =
           VObj [(''name'', VStr (table.name ?t)),
                 (''validator'',
                  VObj [(''$jsonSchema'',
                         VObj [(''bsonType'', VStr ''object''),
                               (''required'',
                                VArr (map VStr
                                  (map field.name
                                     (filter (\<lambda>f. required f \<and> \<not> autoIncrement f) ?fs)))),
                               (''properties'', VObj (generateMongoProperties ?fs))])])]"
    by (rule conjunct1)
  from coll nm rq have c1: "mongoCollection ?t =
     VObj [(''name'', VStr ''shop_content''),
           (''validator'',
            VObj [(''$jsonSchema'',
                   VObj [(''bsonType'', VStr ''object''),
                         (''required'',
                          VArr [VStr ''title'', VStr ''slug'', VStr ''body'', VStr ''type'',
                                VStr ''status'', VStr ''created_at'', VStr ''updated_at'']),
                         (''properties'', VObj (generateMongoProperties ?fs))])])]"
    by simp
  from th pn have "generateMongoDBSchema ?G =
              Inr (JSON_stringify
                     (VObj [(''database'', VStr (replaceWhiteSpaceRuns (toLowerCase ''Demo Shop''))),
                            (''collections'',
                             VArr (map mongoCollection (SchemaGenerator.tables ?G)))]))"
    by blast
  moreover from th db have "generateSQL exampleEnv ?G = generateMongoDBSchema ?G"
    by blast
  moreover have "map mongoCollection (SchemaGenerator.tables ?G) = [mongoCollection ?t]"
    by (subst ts) simp
  ultimately have c2: "generateSQL exampleEnv ?G =
     Inr (JSON_stringify
            (VObj [(''database'', VStr ''demo_shop''),
                   (''collections'', VArr [mongoCollection ?t])]))"
    by (simp only: low)
  from th have "\<forall>f \<in> set ?fs. autoIncrement f \<longrightarrow>
       field.name f \<notin> set (mongoRequired ?fs) \<and>
       field.name f \<notin> set (keys (generateMongoProperties ?fs))"
    by blast
  with m a have "field.name (hd ?fs) \<notin> set (mongoRequired ?fs) \<and>
       field.name (hd ?fs) \<notin> set (keys (generateMongoProperties ?fs))"
    by blast
  with n have c3: "''id'' \<notin> set (mongoRequired ?fs)"
    "''id'' \<notin> set (keys (generateMongoProperties ?fs))"
    by simp_all
  from d db pn c2 c1 k a n c3 show ?thesis by (intro conjI) blast+
qed

text \<open>
  Claim C8. The PostgreSQL renderer, \<open>generatePostgreSQLSchema\<close>, which \<open>generateSQL\<close>
  and \<open>generateFromFiles\<close> run for the dialect \<^verbatim>\<open>postgresql\<close>, emits the header and
  then one block per table of the generator, in order, each block with one line per
  field, in field order. The line of a field that is both primary key and
  auto-increment is its quoted name followed by \<^verbatim>\<open>SERIAL PRIMARY KEY\<close> and nothing
  else, whatever its type, length, required flag, default and unique flag are. The
  line of every other field is its quoted name and mapped type, followed by
  \<^verbatim>\<open>NOT NULL\<close> if it is required, by its quoted default if it has one, and by
  \<^verbatim>\<open>UNIQUE\<close> if it is unique.
\<close>

theorem postgres_serial_primary_key:
  "(primaryKey f \<and> autoIncrement f \<longrightarrow>
      postgresFieldDefinition f =
        ''  '' @ dquote @ field.name f @ dquote @ '' SERIAL PRIMARY KEY'' \<and>
      postgresFieldDefinition
        (f\<lparr>field_type := t, required := r, unique := u, field_default := d,
           field_length := l\<rparr>) = postgresFieldDefinition f) \<and>
   (\<not> (primaryKey f \<and> autoIncrement f) \<longrightarrow>
      postgresFieldDefinition f =
        ''  '' @ dquote @ field.name f @ dquote @ '' '' @ mapTypeToPostgreSQL f @
        (if required f then '' NOT NULL'' else []) @
        (case field_default f of
           None \<Rightarrow> []
         | Some v \<Rightarrow> '' DEFAULT '' @ [CHR 0x27] @ showLiteral v @ [CHR 0x27]) @
        (if unique f then '' UNIQUE'' else [])) \<and>
   postgresTable tb =
     ''CREATE TABLE IF NOT EXISTS '' @ dquote @ table.name tb @ dquote @ '' ('' @ newline @
     join ('','' @ newline) (map postgresFieldDefinition (table_fields tb)) @
     newline @ '');'' @ newline @ newline \<and>
   generatePostgreSQLSchema e this =
     ''-- Generated PostgreSQL Schema for '' @ showOptional (projectName (config this)) @
     newline @ ''-- Generated at: '' @ now e @ newline @ newline @
     concat (map postgresTable (SchemaGenerator.tables this)) \<and>
   (databaseType (config this) = ''postgresql'' \<longrightarrow>
      generateSQL e this = Inr (generatePostgreSQLSchema e this) \<and>
      (\<exists>res. fst (generateFromFiles e this files) = Inr res \<and>
         sql res =
           ''-- Generated PostgreSQL Schema for '' @ showOptional (projectName (config this)) @
           newline @ ''-- Generated at: '' @ now e @ newline @ newline @
           concat (map postgresTable
                     (SchemaGenerator.tables this @ templateTables (config this)))))"
proof -
  have a: "(primaryKey f \<and> autoIncrement f \<longrightarrow>
      postgresFieldDefinition f =
        ''  '' @ dquote @ field.name f @ dquote @ '' SERIAL PRIMARY KEY'' \<and>
      postgresFieldDefinition
        (f\<lparr>field_type := t, required := r, unique := u, field_default := d,
           field_length := l\<rparr>) = postgresFieldDefinition f) \<and>
   (\<not> (primaryKey f \<and> autoIncrement f) \<longrightarrow>
      postgresFieldDefinition f =
        ''  '' @ dquote @ field.name f @ dquote @ '' '' @ mapTypeToPostgreSQL f @
        (if required f then '' NOT NULL'' else []) @
        (case field_default f of
           None \<Rightarrow> []
         | Some v \<Rightarrow> '' DEFAULT '' @ [CHR 0x27] @ showLiteral v @ [CHR 0x27]) @
        (if unique f then '' UNIQUE'' else [])) \<and>
   postgresTable tb =
     ''CREATE TABLE IF NOT EXISTS '' @ dquote @ table.name tb @ dquote @ '' ('' @ newline @
     join ('','' @ newline) (map postgresFieldDefinition (table_fields tb)) @
     newline @ '');'' @ newline @ newline"
    by (auto simp: postgresFieldDefinition_def postgresTable_def Let_def split: option.splits)
  have b: "databaseType (config this) = ''postgresql'' \<longrightarrow>
      generateSQL e this = Inr (generatePostgreSQLSchema e this) \<and>
      (\<exists>res. fst (generateFromFiles e this files) = Inr res \<and>
         sql res =
           ''-- Generated PostgreSQL Schema for '' @ showOptional (projectName (config this)) @
           newline @ ''-- Generated at: '' @ now e @ newline @ newline @
           concat (map postgresTable
                     (SchemaGenerator.tables this @ templateTables (config this))))"
  proof (intro impI conjI)
    assume h: "databaseType (config this) = ''postgresql''"
    then show "generateSQL e this = Inr (generatePostgreSQLSchema e this)"
      by (rule generateSQL_postgresql)
    from h obtain res where res: "fst (generateFromFiles e this files) = Inr res"
      "sql res = generatePostgreSQLSchema e (snd (generateFromFiles e this files))"
      using generateFromFiles_postgresql [of this e files] by blast
    from res(2) have "sql res =
           ''-- Generated PostgreSQL Schema for '' @ showOptional (projectName (config this)) @
           newline @ ''-- Generated at: '' @ now e @ newline @ newline @
           concat (map postgresTable
                     (SchemaGenerator.tables this @ templateTables (config this)))"
      by (simp only: generatePostgreSQLSchema_eq generateFromFiles_state) simp
    with res(1) show "\<exists>res. fst (generateFromFiles e this files) = Inr res \<and>
         sql res =
           ''-- Generated PostgreSQL Schema for '' @ showOptional (projectName (config this)) @
           newline @ ''-- Generated at: '' @ now e @ newline @ newline @
           concat (map postgresTable
                     (SchemaGenerator.tables this @ templateTables (config this)))"
      by blast
  qed
  from a b generatePostgreSQLSchema_eq [of e this] show ?thesis
    by (intro conjI) blast+
qed

theorem postgres_serial_primary_key_witness:
  "databaseType (config examplePostgresGenerator) = ''postgresql'' \<and>
   map_sum id (split (CHR 0x0A)) (generateSQL exampleEnv examplePostgresGenerator) =
     Inr [''-- Generated PostgreSQL Schema for Demo Shop'',
          ''-- Generated at: 2024-01-15T10:00:00.000Z'',
          [],
          ''CREATE TABLE IF NOT EXISTS '' @ dquote @ ''shop_content'' @ dquote @ '' ('',
          ''  '' @ dquote @ ''id'' @ dquote @ '' SERIAL PRIMARY KEY,'',
          ''  '' @ dquote @ ''title'' @ dquote @ '' VARCHAR(255) NOT NULL,'',
          ''  '' @ dquote @ ''slug'' @ dquote @ '' VARCHAR(255) NOT NULL UNIQUE,'',
          ''  '' @ dquote @ ''body'' @ dquote @ '' TEXT NOT NULL,'',
          ''  '' @ dquote @ ''type'' @ dquote @ '' VARCHAR(50) NOT NULL,'',
          ''  '' @ dquote @ ''status'' @ dquote @ '' VARCHAR(20) NOT NULL DEFAULT '' @
            [CHR 0x27] @ ''draft'' @ [CHR 0x27] @ '','',
          ''  '' @ dquote @ ''created_at'' @ dquote @
            '' TIMESTAMP DEFAULT CURRENT_TIMESTAMP NOT NULL,'',
          ''  '' @ dquote @ ''updated_at'' @ dquote @
            '' TIMESTAMP DEFAULT CURRENT_TIMESTAMP NOT NULL'',
          '');'',
          [],
          []] \<and>
   primaryKey (hd (table_fields (hd (SchemaGenerator.tables examplePostgresGenerator)))) \<and>
   autoIncrement (hd (table_fields (hd (SchemaGenerator.tables examplePostgresGenerator)))) \<and>
   required (hd (table_fields (hd (SchemaGenerator.tables examplePostgresGenerator)))) \<and>
   postgresFieldDefinition
     (hd (table_fields (hd (SchemaGenerator.tables examplePostgresGenerator)))) =
     ''  '' @ dquote @ ''id'' @ dquote @ '' SERIAL PRIMARY KEY'' \<and>
   \<not> (primaryKey (table_fields (hd (SchemaGenerator.tables examplePostgresGenerator)) ! 5) \<and>
      autoIncrement (table_fields (hd (SchemaGenerator.tables examplePostgresGenerator)) ! 5)) \<and>
   postgresFieldDefinition
     (table_fields (hd (SchemaGenerator.tables examplePostgresGenerator)) ! 5) =
     ''  '' @ dquote @ ''status'' @ dquote @ '' VARCHAR(20) NOT NULL DEFAULT '' @
     [CHR 0x27] @ ''draft'' @ [CHR 0x27]"
proof -
  let ?G = "examplePostgresGenerator"
  let ?tb = "hd (SchemaGenerator.tables ?G)"
  let ?f = "hd (table_fields ?tb)"
  let ?g = "table_fields ?tb ! 5"
  have db: "databaseType (config ?G) = ''postgresql''" by code_simp
  have f: "primaryKey ?f" "autoIncrement ?f" "required ?f" "field.name ?f = ''id''"
    by code_simp+
  have g: "\<not> (primaryKey ?g \<and> autoIncrement ?g)" "field.name ?g = ''status''"
    "mapTypeToPostgreSQL ?g = ''VARCHAR(20)''" "required ?g"
    "field_default ?g = Some (LStr ''draft'')" "\<not> unique ?g"
    by code_simp+
  note tf = postgres_serial_primary_key
    [where f = ?f and t = TInteger and r = True and u = False and d = None and l = None
       and tb = ?tb and e = exampleEnv and this = ?G and files = "[]"]
  note tg = postgres_serial_primary_key
    [where f = ?g and t = TInteger and r = True and u = False and d = None and l = None
       and tb = ?tb and e = exampleEnv and this = ?G and files = "[]"]
  from tf f have pf: "postgresFieldDefinition ?f =
      ''  '' @ dquote @ ''id'' @ dquote @ '' SERIAL PRIMARY KEY''"
    by simp
  from tg g have pg: "postgresFieldDefinition ?g =
      ''  '' @ dquote @ ''status'' @ dquote @ '' VARCHAR(20) NOT NULL DEFAULT '' @
      [CHR 0x27] @ ''draft'' @ [CHR 0x27]"
    by (simp add: showLiteral_def)
  from tf db have s1: "generateSQL exampleEnv ?G = Inr (generatePostgreSQLSchema exampleEnv ?G)"
    by blast
  have s2: "map_sum id (split (CHR 0x0A))
              (Inr (generatePostgreSQLSchema exampleEnv ?G) :: error + string) =
     Inr [''-- Generated PostgreSQL Schema for Demo Shop'',
          ''-- Generated at: 2024-01-15T10:00:00.000Z'',
          [],
          ''CREATE TABLE IF NOT EXISTS '' @ dquote @ ''shop_content'' @ dquote @ '' ('',
          ''  '' @ dquote @ ''id'' @ dquote @ '' SERIAL PRIMARY KEY,'',
          ''  '' @ dquote @ ''title'' @ dquote @ '' VARCHAR(255) NOT NULL,'',
          ''  '' @ dquote @ ''slug'' @ dquote @ '' VARCHAR(255) NOT NULL UNIQUE,'',
          ''  '' @ dquote @ ''body'' @ dquote @ '' TEXT NOT NULL,'',
          ''  '' @ dquote @ ''type'' @ dquote @ '' VARCHAR(50) NOT NULL,'',
          ''  '' @ dquote @ ''status'' @ dquote @ '' VARCHAR(20) NOT NULL DEFAULT '' @
            [CHR 0x27] @ ''draft'' @ [CHR 0x27] @ '','',
          ''  '' @ dquote @ ''created_at'' @ dquote @
            '' TIMESTAMP DEFAULT CURRENT_TIMESTAMP NOT NULL,'',
          ''  '' @ dquote @ ''updated_at'' @ dquote @
            '' TIMESTAMP DEFAULT CURRENT_TIMESTAMP NOT NULL'',
          '');'',
          [],
          []]"
    by code_simp
  from s1 s2 have s: "map_sum id (split (CHR 0x0A)) (generateSQL exampleEnv ?G) =
     Inr [''-- Generated PostgreSQL Schema for Demo Shop'',
          ''-- Generated at: 2024-01-15T10:00:00.000Z'',
          [],
          ''CREATE TABLE IF NOT EXISTS '' @ dquote @ ''shop_content'' @ dquote @ '' ('',
          ''  '' @ dquote @ ''id'' @ dquote @ '' SERIAL PRIMARY KEY,'',
          ''  '' @ dquote @ ''title'' @ dquote @ '' VARCHAR(255) NOT NULL,'',
          ''  '' @ dquote @ ''slug'' @ dquote @ '' VARCHAR(255) NOT NULL UNIQUE,'',
          ''  '' @ dquote @ ''body'' @ dquote @ '' TEXT NOT NULL,'',
          ''  '' @ dquote @ ''type'' @ dquote @ '' VARCHAR(50) NOT NULL,'',
          ''  '' @ dquote @ ''status'' @ dquote @ '' VARCHAR(20) NOT NULL DEFAULT '' @
            [CHR 0x27] @ ''draft'' @ [CHR 0x27] @ '','',
          ''  '' @ dquote @ ''created_at'' @ dquote @
            '' TIMESTAMP DEFAULT CURRENT_TIMESTAMP NOT NULL,'',
          ''  '' @ dquote @ ''updated_at'' @ dquote @
            '' TIMESTAMP DEFAULT CURRENT_TIMESTAMP NOT NULL'',
          '');'',
          [],
          []]"
    by (simp only:)
  from db s f pf g pg show ?thesis by (intro conjI) blast+
qed

end
